theory Spec2Isabelle
  imports Main
begin

section \<open>Data model of sql/utils/execute\_sql.py\<close>

text \<open>
  The status of a workflow is a string in the source; the six values the module reads or
  writes are named here. Any other string is a status the module only ever rejects.
\<close>

abbreviation workflow_queuing :: string where
  "workflow_queuing \<equiv> ''workflow_queuing''"
abbreviation workflow_timingtask :: string where
  "workflow_timingtask \<equiv> ''workflow_timingtask''"
abbreviation workflow_executing :: string where
  "workflow_executing \<equiv> ''workflow_executing''"
abbreviation workflow_finish :: string where
  "workflow_finish \<equiv> ''workflow_finish''"
abbreviation workflow_exception :: string where
  "workflow_exception \<equiv> ''workflow_exception''"
abbreviation workflow_review_pass :: string where
  "workflow_review_pass \<equiv> ''workflow_review_pass''"

text \<open>
  Every raise of the module is a value. The two guards raise a plain \<open>Exception\<close> with a
  fixed message; they are told apart here by the names the specification gives them.
  \<open>ExternalError\<close> is a failure raised inside a collaborator (database, audit log, cache,
  configuration, notifier, engine), carrying its message.
\<close>

datatype py_error =
    DoesNotExist
  | RelatedObjectDoesNotExist
  | InvalidStateError
  | DuplicateCallbackError nat
  | AttributeError
  | TypeError
  | ExternalError string

text \<open>
  \<open>ReviewSet\<close> and \<open>ReviewResult\<close> (sql.engines.models) with the fields this module uses.
  The result of a task is whatever the task function returned or, on failure, the text of
  the traceback: a Python value of any shape. The row synthesised for a failed task stores
  that value as its \<open>errormessage\<close>, hence the recursion.
\<close>

datatype payload =
    PNone
  | PText string
  | PReviewSet review_set
and review_set =
    ReviewSet (full_sql: string) (warning: bool) (error: bool) (rows: "review_result list")
and review_result =
    ReviewResult (stage: string) (errlevel: int) (stagestatus: string)
                 (errormessage: payload) (sql: string)

record user =
  username :: string
  display :: string

text \<open>\<open>SqlWorkflow\<close>: \<open>wf_id\<close> is the primary key \<open>id\<close>, \<open>wf_instance\<close> the key of the
  instance the foreign key \<open>instance\<close> points to.\<close>

record sql_workflow =
  wf_id :: nat
  workflow_name :: string
  status :: string
  wf_instance :: nat
  db_name :: string
  syntax_type :: int
  finish_time :: "nat option"

text \<open>The text column \<open>execute_result\<close> receives either the JSON text of a review set or,
  on the fallback path, the one-element Python set \<open>{str(e)}\<close>.\<close>

datatype stored_result = StoredText string | StoredErrorSet string

record sql_workflow_content =
  sql_content :: string
  execute_result :: stored_result

text \<open>\<open>DBEnvRelation\<close>: four optional (instance, database) pairs in the order dev, sit, uat,
  pro.\<close>

record db_env_relation =
  dev_instance :: "nat option"
  dev_database :: "string option"
  sit_instance :: "nat option"
  sit_database :: "string option"
  uat_instance :: "nat option"
  uat_database :: "string option"
  pro_instance :: "nat option"
  pro_database :: "string option"

record audit_entry =
  audit_id :: nat
  operation_type :: int
  operation_type_desc :: string
  operation_info :: string
  operator :: string
  operator_display :: string

record task =
  args0 :: nat
  success :: bool
  result :: payload
  stopped :: nat

text \<open>
  The state the module acts on: the two tables it owns, the relation table it reads, and
  what its collaborators have been handed so far (audit entries, cache keys, notified
  workflows, workflows passed to an engine, logged errors).
\<close>

record world =
  sql_workflows :: "nat \<rightharpoonup> sql_workflow"
  sql_workflow_contents :: "nat \<rightharpoonup> sql_workflow_content"
  db_env_relations :: "db_env_relation list"
  audit_logs :: "audit_entry list"
  redis_keys :: "string list"
  notified :: "sql_workflow list"
  engine_runs :: "sql_workflow list"
  error_log :: "py_error list"

text \<open>
  The collaborators, as parameters: what each returns, and for each call that can raise,
  whether it does (\<open>Some msg\<close>) at that call site.
\<close>

record collab =
  detail_by_workflow_id :: "nat \<Rightarrow> string + nat"
  execute_workflow :: "sql_workflow \<Rightarrow> string + review_set"
  json :: "review_set \<Rightarrow> string + string"
  get_status_display :: "string \<Rightarrow> string"
  notify_phase_control :: "string + string option"
  status_save_fault :: "string option"
  add_log_fault :: "string option"
  content_save_fault :: "string option"
  workflow_save_fault :: "string option"
  forced_update_fault :: "string option"
  fallback_content_save_fault :: "string option"
  relation_query_fault :: "string option"
  final_save_fault :: "string option"
  redis_fault :: "string option"
  notify_fault :: "string option"

section \<open>Literals\<close>

text \<open>The Chinese literals of the source, as their UTF-8 bytes.\<close>

definition str_execute_workflow :: string where
  "str_execute_workflow =
     [CHR 0xE6, CHR 0x89, CHR 0xA7, CHR 0xE8, CHR 0xA1, CHR 0x8C,
      CHR 0xE5, CHR 0xB7, CHR 0xA5, CHR 0xE5, CHR 0x8D, CHR 0x95]"

definition str_workflow_started :: string where
  "str_workflow_started =
     [CHR 0xE5, CHR 0xB7, CHR 0xA5, CHR 0xE5, CHR 0x8D, CHR 0x95,
      CHR 0xE5, CHR 0xBC, CHR 0x80, CHR 0xE5, CHR 0xA7, CHR 0x8B,
      CHR 0xE6, CHR 0x89, CHR 0xA7, CHR 0xE8, CHR 0xA1, CHR 0x8C]"

definition str_system_timed :: string where
  "str_system_timed =
     [CHR 0xE7, CHR 0xB3, CHR 0xBB, CHR 0xE7, CHR 0xBB, CHR 0x9F,
      CHR 0xE5, CHR 0xAE, CHR 0x9A, CHR 0xE6, CHR 0x97, CHR 0xB6,
      CHR 0xE6, CHR 0x89, CHR 0xA7, CHR 0xE8, CHR 0xA1, CHR 0x8C,
      CHR 0xE5, CHR 0xB7, CHR 0xA5, CHR 0xE5, CHR 0x8D, CHR 0x95]"

definition str_system :: string where
  "str_system = [CHR 0xE7, CHR 0xB3, CHR 0xBB, CHR 0xE7, CHR 0xBB, CHR 0x9F]"

definition str_abnormal_termination :: string where
  "str_abnormal_termination =
     [CHR 0xE5, CHR 0xBC, CHR 0x82, CHR 0xE5, CHR 0xB8, CHR 0xB8,
      CHR 0xE7, CHR 0xBB, CHR 0x88, CHR 0xE6, CHR 0xAD, CHR 0xA2]"

definition str_execution_ended :: string where
  "str_execution_ended =
     [CHR 0x20, CHR 0xE6, CHR 0x89, CHR 0xA7, CHR 0xE8, CHR 0xA1, CHR 0x8C,
      CHR 0xE7, CHR 0xBB, CHR 0x93, CHR 0xE6, CHR 0x9D, CHR 0x9F]"

definition str_env_result :: string where
  "str_env_result =
     [CHR 0x20, CHR 0xE7, CHR 0x8E, CHR 0xAF, CHR 0xE5, CHR 0xA2, CHR 0x83,
      CHR 0xE6, CHR 0x89, CHR 0xA7, CHR 0xE8, CHR 0xA1, CHR 0x8C,
      CHR 0xE7, CHR 0xBB, CHR 0x93, CHR 0xE6, CHR 0x9E, CHR 0x9C,
      CHR 0xEF, CHR 0xBC, CHR 0x9A]"

definition str_env_pending :: string where
  "str_env_pending =
     [CHR 0x20, CHR 0xE7, CHR 0x8E, CHR 0xAF, CHR 0xE5, CHR 0xA2, CHR 0x83,
      CHR 0xE5, CHR 0xBE, CHR 0x85, CHR 0xE6, CHR 0x89, CHR 0xA7, CHR 0xE8, CHR 0xA1, CHR 0x8C]"

section \<open>execute (lines 20--46)\<close>

text \<open>The audit entry of lines 37--44; \<open>if user\<close> is the test for an operator.\<close>

definition execute_log_entry :: "nat \<Rightarrow> user option \<Rightarrow> audit_entry" where
  "execute_log_entry aid usr =
     \<lparr>audit_id = aid,
      operation_type = 5,
      operation_type_desc = str_execute_workflow,
      operation_info = (case usr of Some u \<Rightarrow> str_workflow_started | None \<Rightarrow> str_system_timed),
      operator = (case usr of Some u \<Rightarrow> username u | None \<Rightarrow> ''''),
      operator_display = (case usr of Some u \<Rightarrow> display u | None \<Rightarrow> str_system)\<rparr>"

text \<open>
  \<open>execute\<close>: inside the transaction the row is loaded and its status checked; the new
  status is written through a second object that carries only the key and the status
  (\<open>update_fields=["status"]\<close>), so \<open>workflow_detail\<close> keeps what was loaded. A raise inside
  the transaction leaves the store as it was. Then the audit entry, then the engine:
  \<open>execute_workflow\<close> stands for \<open>get_engine(...).execute_workflow\<close>, and its failure for
  a failure of either.
\<close>

definition execute :: "collab \<Rightarrow> nat \<Rightarrow> user option \<Rightarrow> world \<Rightarrow> (py_error + review_set) \<times> world" where
  "execute C workflow_id usr w =
     (case sql_workflows w workflow_id of
        None \<Rightarrow> (Inl DoesNotExist, w)
      | Some workflow_detail \<Rightarrow>
          if status workflow_detail \<notin> set [workflow_queuing, workflow_timingtask]
          then (Inl InvalidStateError, w)
          else
            (case status_save_fault C of
               Some msg \<Rightarrow> (Inl (ExternalError msg), w)
             | None \<Rightarrow>
                 let w1 = w\<lparr>sql_workflows := (sql_workflows w)
                             (workflow_id \<mapsto> workflow_detail\<lparr>status := workflow_executing\<rparr>)\<rparr>
                 in
                 (case detail_by_workflow_id C workflow_id of
                    Inl msg \<Rightarrow> (Inl (ExternalError msg), w1)
                  | Inr aid \<Rightarrow>
                      (case add_log_fault C of
                         Some msg \<Rightarrow> (Inl (ExternalError msg), w1)
                       | None \<Rightarrow>
                           let w2 = w1\<lparr>audit_logs := audit_logs w1 @ [execute_log_entry aid usr]\<rparr>;
                               w3 = w2\<lparr>engine_runs := engine_runs w2 @ [workflow_detail]\<rparr>
                           in
                           (case execute_workflow C workflow_detail of
                              Inl msg \<Rightarrow> (Inl (ExternalError msg), w3)
                            | Inr r \<Rightarrow> (Inr r, w3))))))"

section \<open>execute\_callback (lines 49--166)\<close>

text \<open>
  The check of the database connection (lines 55--56) changes nothing the module reads;
  a connection that is lost shows as the failure of the call that needs it.
\<close>

subsection \<open>Guard (lines 57--62)\<close>

definition load_guard :: "task \<Rightarrow> world \<Rightarrow> py_error + sql_workflow" where
  "load_guard t w =
     (case sql_workflows w (args0 t) of
        None \<Rightarrow> Inl DoesNotExist
      | Some workflow \<Rightarrow>
          if status workflow \<noteq> workflow_executing
          then Inl (DuplicateCallbackError (wf_id workflow))
          else Inr workflow)"

subsection \<open>Outcome classification (lines 66--84)\<close>

text \<open>
  The three branches on \<open>task.success\<close> and on the flags of \<open>task.result\<close>, giving the
  status assigned to the workflow and the review set to store. Reading \<open>.warning\<close> of a
  value that is not a review set raises \<open>AttributeError\<close>. \<open>ReviewSet(full_sql=...)\<close> leaves
  both flags unset.
\<close>

definition classify :: "bool \<Rightarrow> payload \<Rightarrow> string \<Rightarrow> py_error + (string \<times> review_set)" where
  "classify task_success task_result raw_sql =
     (if \<not> task_success then
        Inr (workflow_exception,
             ReviewSet raw_sql False False
               [ReviewResult ''Execute failed'' 2 str_abnormal_termination task_result raw_sql])
      else
        (case task_result of
           PReviewSet rs \<Rightarrow>
             if warning rs \<or> error rs then Inr (workflow_exception, rs)
             else Inr (workflow_finish, rs)
         | PText s \<Rightarrow> Inl AttributeError
         | PNone \<Rightarrow> Inl AttributeError))"

text \<open>\<open>workflow.sqlworkflowcontent\<close>: the content row of the workflow, or a raise when there
  is none.\<close>

definition load_content :: "world \<Rightarrow> nat \<Rightarrow> py_error + sql_workflow_content" where
  "load_content w workflow_id =
     (case sql_workflow_contents w workflow_id of
        None \<Rightarrow> Inl RelatedObjectDoesNotExist
      | Some c \<Rightarrow> Inr c)"

text \<open>The content row is read only in the branch of a failed task.\<close>

definition classify_task :: "task \<Rightarrow> world \<Rightarrow> py_error + (string \<times> review_set)" where
  "classify_task t w =
     (if \<not> success t then
        (case load_content w (args0 t) of
           Inl e \<Rightarrow> Inl e
         | Inr c \<Rightarrow> classify False (result t) (sql_content c))
      else classify True (result t) [])"

subsection \<open>Persisting the result (lines 85--97)\<close>

text \<open>\<open>str(e)\<close> for the errors the \<open>try\<close> block can raise.\<close>

fun error_text :: "py_error \<Rightarrow> string" where
  "error_text (ExternalError msg) = msg"
| "error_text RelatedObjectDoesNotExist = ''SqlWorkflow has no sqlworkflowcontent.''"
| "error_text e = []"

text \<open>\<open>SqlWorkflow.objects.filter(id=workflow_id).update(finish_time=..., status=...)\<close>.\<close>

definition forced_update :: "(nat \<rightharpoonup> sql_workflow) \<Rightarrow> nat \<Rightarrow> nat \<Rightarrow> (nat \<rightharpoonup> sql_workflow)" where
  "forced_update tbl workflow_id stopped_at =
     (case tbl workflow_id of
        None \<Rightarrow> tbl
      | Some row \<Rightarrow>
          tbl(workflow_id \<mapsto> row\<lparr>finish_time := Some stopped_at, status := workflow_exception\<rparr>))"

text \<open>The \<open>try\<close> block: serialise, store the content row, store the workflow row. The two
  saves are separate statements, so the first stays when the second raises.\<close>

definition primary_save ::
  "collab \<Rightarrow> nat \<Rightarrow> sql_workflow \<Rightarrow> review_set \<Rightarrow> world \<Rightarrow> (py_error + unit) \<times> world" where
  "primary_save C workflow_id workflow execute_res w =
     (case json C execute_res of
        Inl msg \<Rightarrow> (Inl (ExternalError msg), w)
      | Inr js \<Rightarrow>
          (case load_content w workflow_id of
             Inl e \<Rightarrow> (Inl e, w)
           | Inr c \<Rightarrow>
               (case content_save_fault C of
                  Some msg \<Rightarrow> (Inl (ExternalError msg), w)
                | None \<Rightarrow>
                    let w1 = w\<lparr>sql_workflow_contents := (sql_workflow_contents w)
                                (workflow_id \<mapsto> c\<lparr>execute_result := StoredText js\<rparr>)\<rparr>
                    in
                    (case workflow_save_fault C of
                       Some msg \<Rightarrow> (Inl (ExternalError msg), w1)
                     | None \<Rightarrow>
                         (Inr (), w1\<lparr>sql_workflows :=
                                        (sql_workflows w1)(workflow_id \<mapsto> workflow)\<rparr>)))))"

text \<open>The \<open>except\<close> handler: log, force the row to \<open>workflow_exception\<close>, store the error
  text. Nothing guards the handler itself.\<close>

definition fallback_save ::
  "collab \<Rightarrow> task \<Rightarrow> py_error \<Rightarrow> world \<Rightarrow> (py_error + unit) \<times> world" where
  "fallback_save C t e w =
     (let w1 = w\<lparr>error_log := error_log w @ [e]\<rparr> in
      case forced_update_fault C of
        Some msg \<Rightarrow> (Inl (ExternalError msg), w1)
      | None \<Rightarrow>
          let w2 = w1\<lparr>sql_workflows := forced_update (sql_workflows w1) (args0 t) (stopped t)\<rparr>
          in
          (case load_content w2 (args0 t) of
             Inl e' \<Rightarrow> (Inl e', w2)
           | Inr c \<Rightarrow>
               (case fallback_content_save_fault C of
                  Some msg \<Rightarrow> (Inl (ExternalError msg), w2)
                | None \<Rightarrow>
                    (Inr (), w2\<lparr>sql_workflow_contents := (sql_workflow_contents w2)
                                  (args0 t \<mapsto> c\<lparr>execute_result := StoredErrorSet (error_text e)\<rparr>)\<rparr>))))"

definition persist_result ::
  "collab \<Rightarrow> task \<Rightarrow> sql_workflow \<Rightarrow> review_set \<Rightarrow> world \<Rightarrow> (py_error + unit) \<times> world" where
  "persist_result C t workflow execute_res w =
     (case primary_save C (args0 t) workflow execute_res w of
        (Inr u, w') \<Rightarrow> (Inr (), w')
      | (Inl e, w') \<Rightarrow> fallback_save C t e w')"

subsection \<open>Environment relation (lines 99--126)\<close>

definition slot_matches :: "nat option \<Rightarrow> string option \<Rightarrow> sql_workflow \<Rightarrow> bool" where
  "slot_matches inst db workflow \<longleftrightarrow>
     inst = Some (wf_instance workflow) \<and> db = Some (db_name workflow)"

definition relation_matches :: "sql_workflow \<Rightarrow> db_env_relation \<Rightarrow> bool" where
  "relation_matches workflow r \<longleftrightarrow>
       slot_matches (dev_instance r) (dev_database r) workflow
     \<or> slot_matches (sit_instance r) (sit_database r) workflow
     \<or> slot_matches (uat_instance r) (uat_database r) workflow
     \<or> slot_matches (pro_instance r) (pro_database r) workflow"

text \<open>\<open>DBEnvRelation.objects.filter(...).first()\<close>.\<close>

definition find_relation :: "world \<Rightarrow> sql_workflow \<Rightarrow> db_env_relation option" where
  "find_relation w workflow = find (relation_matches workflow) (db_env_relations w)"

text \<open>
  One branch of the chain, after \<open>curr_env\<close> has been assigned: the test
  \<open>inst is not None and len(db) > 0\<close> (where \<open>len(None)\<close> raises \<open>TypeError\<close>) and the
  assignment of the next slot. The result is the error caught by the \<open>except\<close>, if any,
  then \<open>curr_env\<close>, \<open>next_env\<close> and the workflow object.
\<close>

definition try_next ::
  "string \<Rightarrow> string \<Rightarrow> nat option \<Rightarrow> string option \<Rightarrow> sql_workflow
     \<Rightarrow> py_error option \<times> string \<times> string \<times> sql_workflow" where
  "try_next curr_env next_env inst db workflow =
     (case inst of
        None \<Rightarrow> (None, curr_env, [], workflow)
      | Some i \<Rightarrow>
          (case db of
             None \<Rightarrow> (Some TypeError, curr_env, [], workflow)
           | Some d \<Rightarrow>
               if length d > 0
               then (None, curr_env, next_env, workflow\<lparr>wf_instance := i, db_name := d\<rparr>)
               else (None, curr_env, [], workflow)))"

text \<open>Lines 105--126. With no relation found, \<open>db_relate.dev_instance\<close> raises
  \<open>AttributeError\<close> on \<open>None\<close>, which the \<open>except\<close> catches.\<close>

definition resolve_env ::
  "db_env_relation option \<Rightarrow> sql_workflow
     \<Rightarrow> py_error option \<times> string \<times> string \<times> sql_workflow" where
  "resolve_env db_relate workflow =
     (case db_relate of
        None \<Rightarrow> (Some AttributeError, [], [], workflow)
      | Some r \<Rightarrow>
          if slot_matches (dev_instance r) (dev_database r) workflow
          then try_next ''dev'' ''sit'' (sit_instance r) (sit_database r) workflow
          else if slot_matches (sit_instance r) (sit_database r) workflow
          then try_next ''sit'' ''uat'' (uat_instance r) (uat_database r) workflow
          else if slot_matches (uat_instance r) (uat_database r) workflow
          then try_next ''uat'' ''pro'' (pro_instance r) (pro_database r) workflow
          else if slot_matches (pro_instance r) (pro_database r) workflow
          then (None, ''pro'', [], workflow)
          else (None, [], [], workflow))"

subsection \<open>Promotion (lines 127--137)\<close>

text \<open>\<open>str.replace(old, new)\<close>: every non-overlapping occurrence, left to right.\<close>

fun replace :: "string \<Rightarrow> string \<Rightarrow> string \<Rightarrow> string" where
  "replace [] old new = (if old = [] then new else [])"
| "replace (c # cs) old new =
     (if old = [] then new @ c # replace cs old new
      else if take (length old) (c # cs) = old
      then new @ replace (drop (length old - 1) cs) old new
      else c # replace cs old new)"

text \<open>\<open>re.match(r'^\[(dev|sit|uat|pro)\]', name)\<close>: each alternative is five characters.\<close>

definition has_env_tag :: "string \<Rightarrow> bool" where
  "has_env_tag name \<longleftrightarrow> take 5 name \<in> set [''[dev]'', ''[sit]'', ''[uat]'', ''[pro]'']"

definition mark :: "string \<Rightarrow> string" where
  "mark env = ''['' @ env @ '']''"

definition rewrite_name :: "string \<Rightarrow> string \<Rightarrow> string \<Rightarrow> string" where
  "rewrite_name curr_env next_env name =
     (if \<not> has_env_tag name then mark next_env @ name
      else replace name (mark curr_env) (mark next_env))"

text \<open>The result is \<open>prompt\<close> and the workflow object.\<close>

definition promote :: "string \<Rightarrow> string \<Rightarrow> sql_workflow \<Rightarrow> string \<times> sql_workflow" where
  "promote curr_env next_env workflow =
     (if next_env \<noteq> [] then
        ('','' @ next_env @ str_env_pending,
         workflow\<lparr>status := workflow_review_pass,
                  workflow_name := rewrite_name curr_env next_env (workflow_name workflow)\<rparr>)
      else ([], workflow))"

text \<open>Lines 105--137 on the workflow object: \<open>curr_env\<close>, \<open>next_env\<close>, \<open>prompt\<close> and the
  object as line 138 saves it.\<close>

definition promotion_step ::
  "db_env_relation option \<Rightarrow> sql_workflow \<Rightarrow> string \<times> string \<times> string \<times> sql_workflow" where
  "promotion_step db_relate workflow =
     (case resolve_env db_relate workflow of
        (caught, curr_env, next_env, workflow1) \<Rightarrow>
          (case promote curr_env next_env workflow1 of
             (prompt, workflow2) \<Rightarrow> (curr_env, next_env, prompt, workflow2)))"

subsection \<open>Audit, cache, notification (lines 139--166)\<close>

definition callback_log_entry :: "nat \<Rightarrow> string \<Rightarrow> string \<Rightarrow> string \<Rightarrow> audit_entry" where
  "callback_log_entry aid curr_env curr_workflow_rst prompt =
     \<lparr>audit_id = aid,
      operation_type = 6,
      operation_type_desc = curr_env @ str_execution_ended,
      operation_info = curr_env @ str_env_result @ curr_workflow_rst @ prompt,
      operator = [],
      operator_display = str_system\<rparr>"

text \<open>The glob \<open>*insRes*\<close>: the key contains \<open>insRes\<close>.\<close>

fun contains :: "string \<Rightarrow> string \<Rightarrow> bool" where
  "contains [] sub = (sub = [])"
| "contains (c # cs) sub = (take (length sub) (c # cs) = sub \<or> contains cs sub)"

text \<open>\<open>str.split(',')\<close>.\<close>

fun split_on :: "char \<Rightarrow> string \<Rightarrow> string list" where
  "split_on sep [] = [[]]"
| "split_on sep (c # cs) =
     (if c = sep then [] # split_on sep cs
      else (case split_on sep cs of
              p # ps \<Rightarrow> (c # p) # ps
            | [] \<Rightarrow> [[c]]))"

text \<open>Lines 160--164: a value that is \<open>None\<close> or empty is falsy and enables the phase.\<close>

definition is_notified :: "string option \<Rightarrow> bool" where
  "is_notified cfg =
     (case cfg of
        None \<Rightarrow> True
      | Some v \<Rightarrow> if v = [] then True else ''Execute'' \<in> set (split_on CHR '','' v))"

text \<open>Lines 139--166, on the workflow object as saved by line 138. A cache that fails is
  taken to fail before any key is deleted.\<close>

definition finish_callback ::
  "collab \<Rightarrow> nat \<Rightarrow> sql_workflow \<Rightarrow> string \<Rightarrow> string \<Rightarrow> string \<Rightarrow> world
     \<Rightarrow> (py_error + unit) \<times> world" where
  "finish_callback C workflow_id workflow curr_env curr_workflow_rst prompt w =
     (case detail_by_workflow_id C workflow_id of
        Inl msg \<Rightarrow> (Inl (ExternalError msg), w)
      | Inr aid \<Rightarrow>
          (case add_log_fault C of
             Some msg \<Rightarrow> (Inl (ExternalError msg), w)
           | None \<Rightarrow>
               let w1 = w\<lparr>audit_logs := audit_logs w
                            @ [callback_log_entry aid curr_env curr_workflow_rst prompt]\<rparr>
               in
               (case (if syntax_type workflow = 1 then redis_fault C else None) of
                  Some msg \<Rightarrow> (Inl (ExternalError msg), w1)
                | None \<Rightarrow>
                    let w2 = (if syntax_type workflow = 1
                              then w1\<lparr>redis_keys :=
                                        filter (\<lambda>k. \<not> contains k ''insRes'') (redis_keys w1)\<rparr>
                              else w1)
                    in
                    (case notify_phase_control C of
                       Inl msg \<Rightarrow> (Inl (ExternalError msg), w2)
                     | Inr cfg \<Rightarrow>
                         if is_notified cfg then
                           (let w3 = w2\<lparr>notified := notified w2 @ [workflow]\<rparr> in
                            case notify_fault C of
                              Some msg \<Rightarrow> (Inl (ExternalError msg), w3)
                            | None \<Rightarrow> (Inr (), w3))
                         else (Inr (), w2)))))"

subsection \<open>The callback\<close>

text \<open>Lines 98--166, after the result has been persisted.\<close>

definition after_persist ::
  "collab \<Rightarrow> task \<Rightarrow> sql_workflow \<Rightarrow> world \<Rightarrow> (py_error + unit) \<times> world" where
  "after_persist C t workflow w =
     (case relation_query_fault C of
        Some msg \<Rightarrow> (Inl (ExternalError msg), w)
      | None \<Rightarrow>
          let db_relate = find_relation w workflow;
              curr_workflow_rst = get_status_display C (status workflow);
              w1 = (case fst (resolve_env db_relate workflow) of
                      Some e \<Rightarrow> w\<lparr>error_log := error_log w @ [e]\<rparr>
                    | None \<Rightarrow> w)
          in
          (case promotion_step db_relate workflow of
             (curr_env, next_env, prompt, workflow1) \<Rightarrow>
               (case final_save_fault C of
                  Some msg \<Rightarrow> (Inl (ExternalError msg), w1)
                | None \<Rightarrow>
                    finish_callback C (args0 t) workflow1 curr_env curr_workflow_rst prompt
                      (w1\<lparr>sql_workflows := (sql_workflows w1)(args0 t \<mapsto> workflow1)\<rparr>))))"

definition execute_callback :: "collab \<Rightarrow> task \<Rightarrow> world \<Rightarrow> (py_error + unit) \<times> world" where
  "execute_callback C t w =
     (case load_guard t w of
        Inl e \<Rightarrow> (Inl e, w)
      | Inr workflow0 \<Rightarrow>
          (case classify_task t w of
             Inl e \<Rightarrow> (Inl e, w)
           | Inr (st, execute_res) \<Rightarrow>
               let workflow = workflow0\<lparr>finish_time := Some (stopped t), status := st\<rparr> in
               (case persist_result C t workflow execute_res w of
                  (Inl e, w1) \<Rightarrow> (Inl e, w1)
                | (Inr u, w1) \<Rightarrow> after_persist C t workflow w1)))"

section \<open>A concrete scenario\<close>

text \<open>
  Workflow 42 targets instance 1, database \<open>D1\<close>, the dev slot of a relation whose sit slot
  is instance 2, database \<open>D2\<close>; uat and pro are not configured. All collaborators answer.
\<close>

definition healthy :: collab where
  "healthy =
     \<lparr>detail_by_workflow_id = (\<lambda>i. Inr 7),
      execute_workflow = (\<lambda>wd. Inr (ReviewSet ''create index i on t (c)'' False False [])),
      json = (\<lambda>rs. Inr (full_sql rs)),
      get_status_display = (\<lambda>s. s),
      notify_phase_control = Inr (Some ''Apply,Execute''),
      status_save_fault = None,
      add_log_fault = None,
      content_save_fault = None,
      workflow_save_fault = None,
      forced_update_fault = None,
      fallback_content_save_fault = None,
      relation_query_fault = None,
      final_save_fault = None,
      redis_fault = None,
      notify_fault = None\<rparr>"

definition relation_1 :: db_env_relation where
  "relation_1 =
     \<lparr>dev_instance = Some 1, dev_database = Some ''D1'',
      sit_instance = Some 2, sit_database = Some ''D2'',
      uat_instance = None, uat_database = Some [],
      pro_instance = None, pro_database = Some []\<rparr>"

definition workflow_42 :: sql_workflow where
  "workflow_42 =
     \<lparr>wf_id = 42, workflow_name = ''[dev]Add index'', status = workflow_queuing,
      wf_instance = 1, db_name = ''D1'', syntax_type = 1, finish_time = None\<rparr>"

definition content_42 :: sql_workflow_content where
  "content_42 = \<lparr>sql_content = ''create index i on t (c)'', execute_result = StoredText []\<rparr>"

definition world_queued :: world where
  "world_queued =
     \<lparr>sql_workflows = [42 \<mapsto> workflow_42],
      sql_workflow_contents = [42 \<mapsto> content_42],
      db_env_relations = [relation_1],
      audit_logs = [],
      redis_keys = [''1_insRes_tables'', ''session''],
      notified = [],
      engine_runs = [],
      error_log = []\<rparr>"

definition world_executing :: world where
  "world_executing =
     world_queued\<lparr>sql_workflows := [42 \<mapsto> workflow_42\<lparr>status := workflow_executing\<rparr>]\<rparr>"

definition clean_task :: task where
  "clean_task =
     \<lparr>args0 = 42, success = True,
      result = PReviewSet (ReviewSet ''create index i on t (c)'' False False []),
      stopped = 1000\<rparr>"

definition failed_task :: task where
  "failed_task =
     \<lparr>args0 = 42, success = False, result = PText ''Traceback: timeout'', stopped = 1000\<rparr>"

text \<open>Two failing collaborators: a content store that refuses the save of the \<open>try\<close>
  block, and a database that refuses every write of the persistence step.\<close>

definition content_store_down :: collab where
  "content_store_down = healthy\<lparr>content_save_fault := Some ''disk full''\<rparr>"

definition database_down :: collab where
  "database_down =
     healthy\<lparr>content_save_fault := Some ''server has gone away'',
             forced_update_fault := Some ''server has gone away''\<rparr>"

definition audit_down :: collab where
  "audit_down = healthy\<lparr>add_log_fault := Some ''audit store unreachable''\<rparr>"

definition engine_down :: collab where
  "engine_down = healthy\<lparr>execute_workflow := (\<lambda>wd. Inl ''connection refused'')\<rparr>"

definition cache_down :: collab where
  "cache_down = healthy\<lparr>redis_fault := Some ''redis timeout''\<rparr>"

definition content_store_lost :: collab where
  "content_store_lost =
     healthy\<lparr>content_save_fault := Some ''disk full'',
             fallback_content_save_fault := Some ''disk still full''\<rparr>"

section \<open>The promotion rule in the specification's words\<close>

text \<open>
  The four slots of a relation in their fixed order; a slot is configured when its
  instance is not null and its database is not empty; the target of a promotion is the
  slot that follows the first slot equal to the workflow's (instance, database), when that
  following slot exists and is configured.
\<close>

definition spec_slots :: "db_env_relation \<Rightarrow> (string \<times> nat option \<times> string option) list" where
  "spec_slots r =
     [(''dev'', dev_instance r, dev_database r),
      (''sit'', sit_instance r, sit_database r),
      (''uat'', uat_instance r, uat_database r),
      (''pro'', pro_instance r, pro_database r)]"

definition spec_configured :: "nat option \<Rightarrow> string option \<Rightarrow> (nat \<times> string) option" where
  "spec_configured inst db =
     (case inst of
        None \<Rightarrow> None
      | Some i \<Rightarrow>
          (case db of
             None \<Rightarrow> None
           | Some d \<Rightarrow> if d = [] then None else Some (i, d)))"

fun spec_next_target ::
  "sql_workflow \<Rightarrow> (string \<times> nat option \<times> string option) list
     \<Rightarrow> (string \<times> nat \<times> string) option" where
  "spec_next_target workflow ((l, i, d) # (l', i', d') # rest) =
     (if i = Some (wf_instance workflow) \<and> d = Some (db_name workflow)
      then (case spec_configured i' d' of
              None \<Rightarrow> None
            | Some (a, b) \<Rightarrow> Some (l', a, b))
      else spec_next_target workflow ((l', i', d') # rest))"
| "spec_next_target workflow slots = None"

section \<open>Unfolding\<close>

lemmas scenario_defs =
  healthy_def relation_1_def workflow_42_def content_42_def world_queued_def
  world_executing_def clean_task_def failed_task_def

lemmas callback_defs =
  execute_callback_def load_guard_def classify_task_def classify_def load_content_def
  persist_result_def primary_save_def fallback_save_def forced_update_def
  after_persist_def find_relation_def relation_matches_def slot_matches_def
  resolve_env_def try_next_def promotion_step_def promote_def rewrite_name_def
  has_env_tag_def mark_def finish_callback_def is_notified_def callback_log_entry_def

section \<open>Properties of execute\<close>

text \<open>
  C2, as stated, fails: the audit log refuses the entry after the transaction has
  committed, \<open>execute\<close> raises, and the stored status has changed to
  \<open>workflow_executing\<close>.
\<close>

theorem execute_fails_after_status_change:
  "fst (execute audit_down 42 None world_queued) = Inl (ExternalError ''audit store unreachable'')
   \<and> map_option status (sql_workflows world_queued 42) = Some workflow_queuing
   \<and> map_option status (sql_workflows (snd (execute audit_down 42 None world_queued)) 42)
       = Some workflow_executing
   \<and> audit_logs (snd (execute audit_down 42 None world_queued)) = []"
  by (simp add: execute_def scenario_defs audit_down_def)

text \<open>
  C2, amended. For a stored workflow, \<open>execute\<close> fails with the invalid-state error exactly
  when the status is neither queuing nor timingtask, and then the state is untouched; when
  it succeeds the stored status is \<open>workflow_executing\<close>, nothing else in the row changed,
  and exactly one audit entry was appended. Every other failure is a collaborator's: a
  status write that fails inside the transaction leaves the state untouched; a failure of
  the audit lookup or of the audit entry leaves the status \<open>workflow_executing\<close> with no
  audit entry and no engine call; a failure of the engine leaves the status
  \<open>workflow_executing\<close> with the one audit entry appended.
\<close>

theorem execute_guard_and_effect:
  assumes "sql_workflows w workflow_id = Some workflow_detail"
  shows "(fst (execute C workflow_id usr w) = Inl InvalidStateError
            \<longleftrightarrow> status workflow_detail \<notin> {workflow_queuing, workflow_timingtask})
       \<and> (fst (execute C workflow_id usr w) = Inl InvalidStateError
            \<longrightarrow> snd (execute C workflow_id usr w) = w)
       \<and> (\<forall>r. fst (execute C workflow_id usr w) = Inr r \<longrightarrow>
            sql_workflows (snd (execute C workflow_id usr w)) workflow_id
              = Some (workflow_detail\<lparr>status := workflow_executing\<rparr>)
          \<and> (\<exists>aid. audit_logs (snd (execute C workflow_id usr w))
                     = audit_logs w @ [execute_log_entry aid usr]))
       \<and> (\<forall>e. fst (execute C workflow_id usr w) = Inl e \<and> e \<noteq> InvalidStateError \<longrightarrow>
            (\<exists>msg. e = ExternalError msg
               \<and> ((status_save_fault C = Some msg \<and> snd (execute C workflow_id usr w) = w)
                  \<or> (status_save_fault C = None
                      \<and> sql_workflows (snd (execute C workflow_id usr w)) workflow_id
                          = Some (workflow_detail\<lparr>status := workflow_executing\<rparr>)
                      \<and> ((audit_logs (snd (execute C workflow_id usr w)) = audit_logs w
                           \<and> engine_runs (snd (execute C workflow_id usr w)) = engine_runs w
                           \<and> (detail_by_workflow_id C workflow_id = Inl msg
                                \<or> add_log_fault C = Some msg))
                         \<or> ((\<exists>aid. audit_logs (snd (execute C workflow_id usr w))
                                      = audit_logs w @ [execute_log_entry aid usr])
                             \<and> engine_runs (snd (execute C workflow_id usr w))
                                 = engine_runs w @ [workflow_detail]
                             \<and> execute_workflow C workflow_detail = Inl msg))))))"
proof -
  have guard: "fst (execute C workflow_id usr w) = Inl InvalidStateError
            \<longleftrightarrow> status workflow_detail \<notin> {workflow_queuing, workflow_timingtask}"
    using assms by (auto simp: execute_def Let_def split: option.splits sum.splits)
  have unchanged: "fst (execute C workflow_id usr w) = Inl InvalidStateError
            \<longrightarrow> snd (execute C workflow_id usr w) = w"
    using assms by (auto simp: execute_def Let_def split: option.splits sum.splits)
  have ok: "\<forall>r. fst (execute C workflow_id usr w) = Inr r \<longrightarrow>
            sql_workflows (snd (execute C workflow_id usr w)) workflow_id
              = Some (workflow_detail\<lparr>status := workflow_executing\<rparr>)
          \<and> (\<exists>aid. audit_logs (snd (execute C workflow_id usr w))
                     = audit_logs w @ [execute_log_entry aid usr])"
    using assms by (auto simp: execute_def Let_def split: option.splits sum.splits)
  have other: "\<forall>e. fst (execute C workflow_id usr w) = Inl e \<and> e \<noteq> InvalidStateError \<longrightarrow>
            (\<exists>msg. e = ExternalError msg
               \<and> ((status_save_fault C = Some msg \<and> snd (execute C workflow_id usr w) = w)
                  \<or> (status_save_fault C = None
                      \<and> sql_workflows (snd (execute C workflow_id usr w)) workflow_id
                          = Some (workflow_detail\<lparr>status := workflow_executing\<rparr>)
                      \<and> ((audit_logs (snd (execute C workflow_id usr w)) = audit_logs w
                           \<and> engine_runs (snd (execute C workflow_id usr w)) = engine_runs w
                           \<and> (detail_by_workflow_id C workflow_id = Inl msg
                                \<or> add_log_fault C = Some msg))
                         \<or> ((\<exists>aid. audit_logs (snd (execute C workflow_id usr w))
                                      = audit_logs w @ [execute_log_entry aid usr])
                             \<and> engine_runs (snd (execute C workflow_id usr w))
                                 = engine_runs w @ [workflow_detail]
                             \<and> execute_workflow C workflow_detail = Inl msg)))))"
    using assms by (auto simp: execute_def Let_def split: option.splits sum.splits if_splits)
  from guard unchanged ok other show ?thesis by (intro conjI)
qed

theorem execute_guard_and_effect_witness:
  "sql_workflows world_queued 42 = Some workflow_42
   \<and> fst (execute healthy 42 None world_queued) \<noteq> Inl InvalidStateError
   \<and> status workflow_42 \<in> {workflow_queuing, workflow_timingtask}
   \<and> sql_workflows (snd (execute healthy 42 None world_queued)) 42
        = Some (workflow_42\<lparr>status := workflow_executing\<rparr>)
   \<and> length (audit_logs (snd (execute healthy 42 None world_queued))) = 1
   \<and> fst (execute engine_down 42 None world_queued) = Inl (ExternalError ''connection refused'')
   \<and> sql_workflows (snd (execute engine_down 42 None world_queued)) 42
        = Some (workflow_42\<lparr>status := workflow_executing\<rparr>)
   \<and> length (audit_logs (snd (execute engine_down 42 None world_queued))) = 1"
proof -
  have h: "sql_workflows world_queued 42 = Some workflow_42"
    by (simp add: world_queued_def)
  have r: "fst (execute healthy 42 None world_queued)
             = Inr (ReviewSet ''create index i on t (c)'' False False [])"
    by (simp add: execute_def scenario_defs)
  have a: "fst (execute healthy 42 None world_queued) \<noteq> Inl InvalidStateError
   \<and> status workflow_42 \<in> {workflow_queuing, workflow_timingtask}
   \<and> sql_workflows (snd (execute healthy 42 None world_queued)) 42
        = Some (workflow_42\<lparr>status := workflow_executing\<rparr>)
   \<and> length (audit_logs (snd (execute healthy 42 None world_queued))) = 1"
    using h r execute_guard_and_effect [OF h, of healthy None]
    by (auto simp: workflow_42_def world_queued_def)
  have f: "fst (execute engine_down 42 None world_queued) = Inl (ExternalError ''connection refused'')"
    by (simp add: execute_def scenario_defs engine_down_def)
  have s: "sql_workflows (snd (execute engine_down 42 None world_queued)) 42
        = Some (workflow_42\<lparr>status := workflow_executing\<rparr>)"
    by (simp add: execute_def scenario_defs engine_down_def)
  have l: "length (audit_logs (snd (execute engine_down 42 None world_queued))) = 1"
    by (simp add: execute_def scenario_defs engine_down_def)
  from h a f s l show ?thesis by (intro conjI) simp_all
qed

text \<open>
  C10. When \<open>execute\<close> succeeds, the record handed to the engine is the one that was loaded
  before the transition: its status is still queuing or timingtask and no field differs
  from the loaded row, while the stored row now says \<open>workflow_executing\<close>.
\<close>

theorem execute_hands_over_loaded_record:
  assumes "sql_workflows w workflow_id = Some workflow_detail"
      and "fst (execute C workflow_id usr w) = Inr r"
  shows "engine_runs (snd (execute C workflow_id usr w)) = engine_runs w @ [workflow_detail]
       \<and> status workflow_detail \<in> {workflow_queuing, workflow_timingtask}
       \<and> sql_workflows (snd (execute C workflow_id usr w)) workflow_id
           = Some (workflow_detail\<lparr>status := workflow_executing\<rparr>)
       \<and> execute_workflow C workflow_detail = Inr r"
  using assms
  by (auto simp: execute_def Let_def split: option.splits sum.splits if_splits)

theorem execute_hands_over_loaded_record_witness:
  "sql_workflows world_queued 42 = Some workflow_42
   \<and> fst (execute healthy 42 None world_queued)
        = Inr (ReviewSet ''create index i on t (c)'' False False [])
   \<and> engine_runs (snd (execute healthy 42 None world_queued)) = [workflow_42]
   \<and> status workflow_42 = workflow_queuing
   \<and> map_option status (sql_workflows (snd (execute healthy 42 None world_queued)) 42)
        = Some workflow_executing"
proof -
  have h: "sql_workflows world_queued 42 = Some workflow_42"
    by (simp add: world_queued_def)
  have r: "fst (execute healthy 42 None world_queued)
             = Inr (ReviewSet ''create index i on t (c)'' False False [])"
    by (simp add: execute_def scenario_defs)
  show ?thesis
    using h r execute_hands_over_loaded_record [OF h r]
    by (simp add: workflow_42_def world_queued_def)
qed

section \<open>Which errors each stage can raise\<close>

lemma classify_error: "classify s p q = Inl e \<Longrightarrow> e = AttributeError"
  by (auto simp: classify_def split: if_splits payload.splits)

lemma classify_task_error:
  "classify_task t w = Inl e \<Longrightarrow> e = AttributeError \<or> e = RelatedObjectDoesNotExist"
  by (auto simp: classify_task_def load_content_def dest: classify_error
           split: if_splits option.splits sum.splits)

lemma primary_save_error:
  "primary_save C i workflow res w = (Inl e, w') \<Longrightarrow>
     e = RelatedObjectDoesNotExist \<or> (\<exists>msg. e = ExternalError msg)"
  by (auto simp: primary_save_def load_content_def Let_def split: option.splits sum.splits)

lemma fallback_save_error:
  "fallback_save C t e0 w = (Inl e, w') \<Longrightarrow>
     e = RelatedObjectDoesNotExist \<or> (\<exists>msg. e = ExternalError msg)"
  by (auto simp: fallback_save_def load_content_def Let_def split: option.splits sum.splits)

lemma persist_result_error:
  "persist_result C t workflow res w = (Inl e, w') \<Longrightarrow>
     e = RelatedObjectDoesNotExist \<or> (\<exists>msg. e = ExternalError msg)"
  by (auto simp: persist_result_def dest: fallback_save_error split: prod.splits sum.splits)

lemma finish_callback_error:
  "finish_callback C i workflow ce rst pr w = (Inl e, w') \<Longrightarrow> \<exists>msg. e = ExternalError msg"
  by (auto simp: finish_callback_def Let_def split: option.splits sum.splits if_splits)

lemma after_persist_error:
  "after_persist C t workflow w = (Inl e, w') \<Longrightarrow> \<exists>msg. e = ExternalError msg"
  by (auto simp: after_persist_def Let_def dest: finish_callback_error
           split: option.splits prod.splits)

lemma execute_callback_past_guard_error:
  assumes "load_guard t w = Inr workflow0"
      and "fst (execute_callback C t w) = Inl e"
  shows "e = AttributeError \<or> e = RelatedObjectDoesNotExist \<or> (\<exists>msg. e = ExternalError msg)"
proof (cases "classify_task t w")
  case (Inl e')
  with assms show ?thesis
    by (auto simp: execute_callback_def dest: classify_task_error)
next
  case (Inr cl)
  obtain st res where cl: "cl = (st, res)" by (cases cl)
  let ?wfl = "workflow0\<lparr>finish_time := Some (stopped t), status := st\<rparr>"
  obtain r1 w1 where p: "persist_result C t ?wfl res w = (r1, w1)"
    by (cases "persist_result C t ?wfl res w")
  show ?thesis
  proof (cases r1)
    case (Inl e1)
    with assms Inr cl p have "e = e1" by (simp add: execute_callback_def)
    with p Inl persist_result_error show ?thesis by blast
  next
    case (Inr u)
    with assms \<open>classify_task t w = Inr cl\<close> cl p
    have "fst (after_persist C t ?wfl w1) = Inl e" by (simp add: execute_callback_def)
    then obtain w2 where "after_persist C t ?wfl w1 = (Inl e, w2)"
      by (cases "after_persist C t ?wfl w1") simp
    with after_persist_error show ?thesis by blast
  qed
qed

section \<open>What each stage leaves in the workflow table\<close>

lemma classify_status:
  "classify s p q = Inr (st, res) \<Longrightarrow> st = workflow_exception \<or> st = workflow_finish"
  by (auto simp: classify_def split: if_splits payload.splits)

lemma classify_task_status:
  "classify_task t w = Inr (st, res) \<Longrightarrow> st = workflow_exception \<or> st = workflow_finish"
  by (auto simp: classify_task_def dest: classify_status split: if_splits sum.splits)

lemma primary_save_table:
  "primary_save C i workflow res w = (r, w') \<Longrightarrow>
     (r = Inr () \<and> sql_workflows w' = (sql_workflows w)(i \<mapsto> workflow))
   \<or> ((\<exists>e. r = Inl e) \<and> sql_workflows w' = sql_workflows w)"
  by (auto simp: primary_save_def Let_def split: option.splits sum.splits)

lemma fallback_save_table:
  assumes "forced_update_fault C = None"
      and "sql_workflows w (args0 t) = Some row"
      and "fallback_save C t e w = (r, w')"
  shows "sql_workflows w' = (sql_workflows w)
           (args0 t \<mapsto> row\<lparr>finish_time := Some (stopped t), status := workflow_exception\<rparr>)"
  using assms
  by (auto simp: fallback_save_def forced_update_def Let_def split: option.splits sum.splits)

lemma persist_result_status:
  assumes "forced_update_fault C = None"
      and "sql_workflows w (args0 t) = Some row"
      and "persist_result C t workflow res w = (r, w')"
  shows "\<exists>row'. sql_workflows w' (args0 t) = Some row'
           \<and> (status row' = status workflow \<or> status row' = workflow_exception)"
proof -
  obtain r1 w1 where p: "primary_save C (args0 t) workflow res w = (r1, w1)"
    by (cases "primary_save C (args0 t) workflow res w")
  show ?thesis
  proof (cases r1)
    case (Inr u)
    with p assms(3) have "w' = w1" by (simp add: persist_result_def)
    with primary_save_table [OF p] Inr show ?thesis by auto
  next
    case (Inl e)
    with p assms(3) have f: "fallback_save C t e w1 = (r, w')" by (simp add: persist_result_def)
    from primary_save_table [OF p] Inl have "sql_workflows w1 = sql_workflows w" by auto
    with assms(2) have "sql_workflows w1 (args0 t) = Some row" by simp
    from fallback_save_table [OF assms(1) this f] show ?thesis by simp
  qed
qed

lemma try_next_status:
  "try_next ce ne inst db workflow = (caught, curr_env, next_env, workflow') \<Longrightarrow>
     status workflow' = status workflow \<and> syntax_type workflow' = syntax_type workflow
     \<and> workflow_name workflow' = workflow_name workflow \<and> wf_id workflow' = wf_id workflow
     \<and> finish_time workflow' = finish_time workflow"
  by (auto simp: try_next_def split: option.splits if_splits)

lemma resolve_env_status:
  "resolve_env db_relate workflow = (caught, curr_env, next_env, workflow') \<Longrightarrow>
     status workflow' = status workflow \<and> syntax_type workflow' = syntax_type workflow
     \<and> workflow_name workflow' = workflow_name workflow \<and> wf_id workflow' = wf_id workflow
     \<and> finish_time workflow' = finish_time workflow"
  by (auto simp: resolve_env_def dest: try_next_status split: option.splits if_splits)

lemma promotion_step_status:
  assumes "promotion_step db_relate workflow = (curr_env, next_env, prompt, workflow')"
  shows "(status workflow' = status workflow \<or> status workflow' = workflow_review_pass)
       \<and> syntax_type workflow' = syntax_type workflow"
proof -
  obtain caught ce ne w1 where r: "resolve_env db_relate workflow = (caught, ce, ne, w1)"
    by (cases "resolve_env db_relate workflow") auto
  from resolve_env_status [OF r] assms r show ?thesis
    by (auto simp: promotion_step_def promote_def split: if_splits)
qed

lemma finish_callback_table:
  "sql_workflows (snd (finish_callback C i workflow ce rst pr w)) = sql_workflows w"
  by (auto simp: finish_callback_def Let_def split: option.splits sum.splits)

lemma after_persist_status:
  assumes "sql_workflows w (args0 t) = Some row"
      and "after_persist C t workflow w = (r, w')"
  shows "\<exists>row'. sql_workflows w' (args0 t) = Some row'
           \<and> (status row' = status row \<or> status row' = status workflow
               \<or> status row' = workflow_review_pass)"
proof (cases "relation_query_fault C")
  case (Some msg)
  with assms show ?thesis by (auto simp: after_persist_def)
next
  case None
  obtain ce ne pr w1 where p:
    "promotion_step (find_relation w workflow) workflow = (ce, ne, pr, w1)"
    by (cases "promotion_step (find_relation w workflow) workflow") auto
  note st = promotion_step_status [OF p]
  show ?thesis
  proof (cases "final_save_fault C")
    case (Some msg)
    with None assms p show ?thesis
      by (auto simp: after_persist_def Let_def split: option.splits)
  next
    case None': None
    let ?w1 = "(case fst (resolve_env (find_relation w workflow) workflow) of
                  Some e \<Rightarrow> w\<lparr>error_log := error_log w @ [e]\<rparr> | None \<Rightarrow> w)"
    let ?w2 = "?w1\<lparr>sql_workflows := (sql_workflows ?w1)(args0 t \<mapsto> w1)\<rparr>"
    from None None' p assms(2)
    have "w' = snd (finish_callback C (args0 t) w1 ce
                     (get_status_display C (status workflow)) pr ?w2)"
      by (simp add: after_persist_def Let_def)
    then have "sql_workflows w' = sql_workflows ?w2"
      by (simp add: finish_callback_table)
    then have "sql_workflows w' (args0 t) = Some w1" by simp
    with st show ?thesis by auto
  qed
qed

section \<open>Properties of execute\_callback\<close>

text \<open>
  C3. For a stored workflow, \<open>execute_callback\<close> fails with the duplicate-callback error
  exactly when the status is not \<open>workflow_executing\<close>, and then it returns the state as it
  found it: no field of the workflow or of its content has been written.
\<close>

theorem execute_callback_guard:
  assumes "sql_workflows w (args0 t) = Some workflow"
  shows "((\<exists>n. fst (execute_callback C t w) = Inl (DuplicateCallbackError n))
            \<longleftrightarrow> status workflow \<noteq> workflow_executing)
       \<and> (status workflow \<noteq> workflow_executing \<longrightarrow>
            execute_callback C t w = (Inl (DuplicateCallbackError (wf_id workflow)), w))"
proof (cases "status workflow = workflow_executing")
  case True
  with assms have g: "load_guard t w = Inr workflow" by (simp add: load_guard_def)
  have "fst (execute_callback C t w) \<noteq> Inl (DuplicateCallbackError n)" for n
    using execute_callback_past_guard_error [OF g, of C "DuplicateCallbackError n"] by auto
  with True show ?thesis by simp
next
  case False
  with assms have "execute_callback C t w = (Inl (DuplicateCallbackError (wf_id workflow)), w)"
    by (simp add: execute_callback_def load_guard_def)
  with False show ?thesis by simp
qed

theorem execute_callback_guard_witness:
  "sql_workflows world_queued (args0 clean_task) = Some workflow_42
   \<and> status workflow_42 \<noteq> workflow_executing
   \<and> execute_callback healthy clean_task world_queued = (Inl (DuplicateCallbackError 42), world_queued)"
proof -
  have h: "sql_workflows world_queued (args0 clean_task) = Some workflow_42"
    by (simp add: world_queued_def clean_task_def)
  show ?thesis
    using h execute_callback_guard [OF h, of healthy]
    by (simp add: workflow_42_def)
qed

text \<open>
  C5. A failed task is classified \<open>workflow_exception\<close> whatever its result is, with a
  review set of exactly one row: stage \<open>Execute failed\<close>, errlevel 2, the status label
  for abnormal termination, the raw result as message, and the full SQL text both as the
  row's sql and as the set's \<open>full_sql\<close>.
\<close>

theorem classify_failed_task:
  "classify False task_result raw_sql
     = Inr (workflow_exception,
            ReviewSet raw_sql False False
              [ReviewResult ''Execute failed'' 2 str_abnormal_termination task_result raw_sql])"
  by (simp add: classify_def)

theorem classify_failed_task_witness:
  "classify False (PReviewSet (ReviewSet ''x'' True True [])) ''drop table t''
     = Inr (workflow_exception,
            ReviewSet ''drop table t'' False False
              [ReviewResult ''Execute failed'' 2 str_abnormal_termination
                 (PReviewSet (ReviewSet ''x'' True True [])) ''drop table t''])"
  using classify_failed_task [of "PReviewSet (ReviewSet ''x'' True True [])" "''drop table t''"]
  by simp

text \<open>
  C6, as stated, fails: a task that succeeded with a result that is not a review set (an
  engine that returned nothing) makes the classification raise.
\<close>

theorem classify_succeeded_without_review_set:
  "classify True PNone ''select 1'' = Inl AttributeError"
  by (simp add: classify_def)

text \<open>
  C6, amended. The classification is a function of its three inputs, and it yields a
  (status, result) pair whenever the task failed or its result is a review set: a failed
  task gives \<open>workflow_exception\<close> with the synthesised set, a review set with a warning
  or error flag gives \<open>workflow_exception\<close> with the set as it is, a clean one gives
  \<open>workflow_finish\<close> with the set as it is. A succeeded task with any other result
  raises \<open>AttributeError\<close>.
\<close>

theorem classify_total_on_review_sets:
  "((task_success \<longrightarrow> task_result = PReviewSet rs) \<longrightarrow>
      classify task_success task_result raw_sql
        = Inr (if \<not> task_success then
                 (workflow_exception,
                  ReviewSet raw_sql False False
                    [ReviewResult ''Execute failed'' 2 str_abnormal_termination
                       task_result raw_sql])
               else if warning rs \<or> error rs then (workflow_exception, rs)
               else (workflow_finish, rs)))
   \<and> (task_success \<and> (\<forall>rs'. task_result \<noteq> PReviewSet rs') \<longrightarrow>
        classify task_success task_result raw_sql = Inl AttributeError)"
  by (auto simp: classify_def split: payload.splits)

theorem classify_total_on_review_sets_witness:
  "classify True (PReviewSet (ReviewSet ''q'' True False [])) ''q''
       = Inr (workflow_exception, ReviewSet ''q'' True False [])
   \<and> classify True (PReviewSet (ReviewSet ''q'' False False [])) ''q''
       = Inr (workflow_finish, ReviewSet ''q'' False False [])
   \<and> classify True (PText ''done'') ''q'' = Inl AttributeError"
  using classify_total_on_review_sets
          [of True "PReviewSet (ReviewSet ''q'' True False [])" "ReviewSet ''q'' True False []" "''q''"]
        classify_total_on_review_sets
          [of True "PReviewSet (ReviewSet ''q'' False False [])" "ReviewSet ''q'' False False []" "''q''"]
        classify_total_on_review_sets [of True "PText ''done''" undefined "''q''"]
  by simp

section \<open>Promotion\<close>

lemma try_next_spec:
  "try_next ce ne inst db workflow =
     (case spec_configured inst db of
        None \<Rightarrow> (if inst \<noteq> None \<and> db = None then Some TypeError else None, ce, [], workflow)
      | Some (i, d) \<Rightarrow> (None, ce, ne, workflow\<lparr>wf_instance := i, db_name := d\<rparr>))"
  by (auto simp: try_next_def spec_configured_def split: option.splits)

lemma slot_matches_status:
  "slot_matches inst db (workflow\<lparr>status := s\<rparr>) = slot_matches inst db workflow"
  by (simp add: slot_matches_def)

lemma try_next_next_env:
  "fst (snd (snd (try_next ce ne inst db workflow)))
     = (case spec_configured inst db of None \<Rightarrow> [] | Some x \<Rightarrow> ne)"
  by (simp add: try_next_spec split: option.splits)

lemma resolve_env_status_independent:
  "fst (snd (snd (resolve_env db_relate (workflow\<lparr>status := s\<rparr>))))
     = fst (snd (snd (resolve_env db_relate workflow)))"
  by (simp add: resolve_env_def try_next_next_env slot_matches_status split: option.splits)

lemma spec_next_target_slots:
  "spec_next_target workflow (spec_slots r) =
     (if slot_matches (dev_instance r) (dev_database r) workflow
      then (case spec_configured (sit_instance r) (sit_database r) of
              None \<Rightarrow> None | Some (a, b) \<Rightarrow> Some (''sit'', a, b))
      else if slot_matches (sit_instance r) (sit_database r) workflow
      then (case spec_configured (uat_instance r) (uat_database r) of
              None \<Rightarrow> None | Some (a, b) \<Rightarrow> Some (''uat'', a, b))
      else if slot_matches (uat_instance r) (uat_database r) workflow
      then (case spec_configured (pro_instance r) (pro_database r) of
              None \<Rightarrow> None | Some (a, b) \<Rightarrow> Some (''pro'', a, b))
      else None)"
  by (simp add: spec_slots_def slot_matches_def)

lemma try_next_target:
  assumes "try_next ce ne inst db workflow = (caught, curr_env, next_env, workflow1)"
      and "ne \<noteq> []"
  shows "(case (case spec_configured inst db of
                  None \<Rightarrow> None | Some (a, b) \<Rightarrow> Some (ne, a, b)) of
            None \<Rightarrow> next_env = [] \<and> workflow1 = workflow
          | Some (l, i, d) \<Rightarrow>
              next_env = l \<and> l \<noteq> [] \<and> workflow1 = workflow\<lparr>wf_instance := i, db_name := d\<rparr>)"
  using assms by (auto simp: try_next_spec split: option.splits)

lemma resolve_env_spec:
  assumes "resolve_env (Some r) workflow = (caught, curr_env, next_env, workflow1)"
  shows "(case spec_next_target workflow (spec_slots r) of
            None \<Rightarrow> next_env = [] \<and> workflow1 = workflow
          | Some (l, i, d) \<Rightarrow>
              next_env = l \<and> l \<noteq> [] \<and> workflow1 = workflow\<lparr>wf_instance := i, db_name := d\<rparr>)"
proof -
  consider
      (dev) "slot_matches (dev_instance r) (dev_database r) workflow"
    | (sit) "\<not> slot_matches (dev_instance r) (dev_database r) workflow"
            "slot_matches (sit_instance r) (sit_database r) workflow"
    | (uat) "\<not> slot_matches (dev_instance r) (dev_database r) workflow"
            "\<not> slot_matches (sit_instance r) (sit_database r) workflow"
            "slot_matches (uat_instance r) (uat_database r) workflow"
    | (other) "\<not> slot_matches (dev_instance r) (dev_database r) workflow"
            "\<not> slot_matches (sit_instance r) (sit_database r) workflow"
            "\<not> slot_matches (uat_instance r) (uat_database r) workflow"
    by blast
  then show ?thesis
  proof cases
    case dev
    with assms have "try_next ''dev'' ''sit'' (sit_instance r) (sit_database r) workflow
                       = (caught, curr_env, next_env, workflow1)"
      by (simp add: resolve_env_def)
    from try_next_target [OF this] dev show ?thesis
      by (simp add: spec_next_target_slots)
  next
    case sit
    with assms have "try_next ''sit'' ''uat'' (uat_instance r) (uat_database r) workflow
                       = (caught, curr_env, next_env, workflow1)"
      by (simp add: resolve_env_def)
    from try_next_target [OF this] sit show ?thesis
      by (simp add: spec_next_target_slots)
  next
    case uat
    with assms have "try_next ''uat'' ''pro'' (pro_instance r) (pro_database r) workflow
                       = (caught, curr_env, next_env, workflow1)"
      by (simp add: resolve_env_def)
    from try_next_target [OF this] uat show ?thesis
      by (simp add: spec_next_target_slots)
  next
    case other
    with assms have "next_env = [] \<and> workflow1 = workflow"
      by (auto simp: resolve_env_def split: if_splits)
    with other show ?thesis
      by (simp add: spec_next_target_slots)
  qed
qed

text \<open>
  C1, as stated, fails: the task failed, the classified status is \<open>workflow_exception\<close>,
  and the workflow is promoted all the same, to instance 2, database \<open>D2\<close>, status
  \<open>workflow_review_pass\<close>.
\<close>

theorem promoted_after_exception:
  "classify_task failed_task world_executing
     = Inr (workflow_exception,
            ReviewSet ''create index i on t (c)'' False False
              [ReviewResult ''Execute failed'' 2 str_abnormal_termination
                 (PText ''Traceback: timeout'') ''create index i on t (c)''])
   \<and> sql_workflows (snd (execute_callback healthy failed_task world_executing)) 42
       = Some (workflow_42\<lparr>status := workflow_review_pass, wf_instance := 2, db_name := ''D2'',
                            workflow_name := ''[sit]Add index'', finish_time := Some 1000\<rparr>)"
  by (simp add: callback_defs scenario_defs)

text \<open>
  C1, amended. Promotion occurs exactly when a relation was found and the slot that
  follows the workflow's current slot exists and is configured, whatever the status the
  classification assigned; it then moves the workflow to that slot with status
  \<open>workflow_review_pass\<close>. When it does not occur, instance, database and status are as
  they were before the step.
\<close>

theorem promotion_iff_next_slot_configured:
  assumes "promotion_step db_relate workflow = (curr_env, next_env, prompt, workflow')"
  shows "(next_env \<noteq> [] \<longleftrightarrow>
            (\<exists>r. db_relate = Some r \<and> spec_next_target workflow (spec_slots r) \<noteq> None))
       \<and> (\<forall>r l i d. db_relate = Some r
               \<and> spec_next_target workflow (spec_slots r) = Some (l, i, d) \<longrightarrow>
             next_env = l \<and> wf_instance workflow' = i \<and> db_name workflow' = d
             \<and> status workflow' = workflow_review_pass)
       \<and> (next_env = [] \<longrightarrow>
             wf_instance workflow' = wf_instance workflow
             \<and> db_name workflow' = db_name workflow
             \<and> status workflow' = status workflow)
       \<and> (\<forall>s. fst (snd (promotion_step db_relate (workflow\<lparr>status := s\<rparr>))) = next_env)"
proof (cases db_relate)
  case None
  with assms show ?thesis
    by (auto simp: promotion_step_def resolve_env_def promote_def)
next
  case rel: (Some r)
  obtain caught ce ne w1 where re: "resolve_env (Some r) workflow = (caught, ce, ne, w1)"
    by (cases "resolve_env (Some r) workflow") auto
  have nxt: "fst (snd (promotion_step (Some r) wfl)) = fst (snd (snd (resolve_env (Some r) wfl)))"
    for wfl
    by (simp add: promotion_step_def promote_def split: prod.splits)
  have indep: "fst (snd (promotion_step (Some r) (workflow\<lparr>status := s\<rparr>))) = ne" for s
    using re by (simp add: nxt resolve_env_status_independent)
  from assms rel re have ne: "next_env = ne"
    by (auto simp: promotion_step_def split: prod.splits)
  from assms rel re have w': "workflow' = snd (promote ce ne w1)"
    by (auto simp: promotion_step_def split: prod.splits)
  show ?thesis
  proof (cases "spec_next_target workflow (spec_slots r)")
    case None
    with resolve_env_spec [OF re] have "ne = []" and "w1 = workflow" by simp_all
    with ne w' have "next_env = []" and "workflow' = workflow" by (simp_all add: promote_def)
    with rel None indep ne show ?thesis by simp
  next
    case (Some tgt)
    obtain l i d where tgt: "tgt = (l, i, d)" by (cases tgt)
    with Some resolve_env_spec [OF re]
    have "ne = l" and "l \<noteq> []" and "w1 = workflow\<lparr>wf_instance := i, db_name := d\<rparr>"
      by simp_all
    with ne w' have "next_env = l" and "next_env \<noteq> []"
      and "wf_instance workflow' = i" and "db_name workflow' = d"
      and "status workflow' = workflow_review_pass"
      by (simp_all add: promote_def)
    with rel Some tgt indep ne show ?thesis by simp
  qed
qed

theorem promotion_iff_next_slot_configured_witness:
  "promotion_step (Some relation_1) (workflow_42\<lparr>status := workflow_exception\<rparr>)
     = (''dev'', ''sit'', '','' @ ''sit'' @ str_env_pending,
        workflow_42\<lparr>status := workflow_review_pass, wf_instance := 2, db_name := ''D2'',
                     workflow_name := ''[sit]Add index''\<rparr>)
   \<and> spec_next_target (workflow_42\<lparr>status := workflow_exception\<rparr>) (spec_slots relation_1)
       = Some (''sit'', 2, ''D2'')
   \<and> fst (snd (promotion_step (Some relation_1)
                (workflow_42\<lparr>status := workflow_exception, status := workflow_finish\<rparr>)))
       = ''sit''"
proof -
  have h: "promotion_step (Some relation_1) (workflow_42\<lparr>status := workflow_exception\<rparr>)
     = (''dev'', ''sit'', '','' @ ''sit'' @ str_env_pending,
        workflow_42\<lparr>status := workflow_review_pass, wf_instance := 2, db_name := ''D2'',
                     workflow_name := ''[sit]Add index''\<rparr>)"
    by (simp add: callback_defs scenario_defs)
  have t: "spec_next_target (workflow_42\<lparr>status := workflow_exception\<rparr>) (spec_slots relation_1)
       = Some (''sit'', 2, ''D2'')"
    by (simp add: spec_slots_def spec_configured_def scenario_defs)
  from promotion_iff_next_slot_configured [OF h]
  have "\<forall>s. fst (snd (promotion_step (Some relation_1)
                (workflow_42\<lparr>status := workflow_exception, status := s\<rparr>))) = ''sit''"
    by (elim conjE)
  then have c: "fst (snd (promotion_step (Some relation_1)
                (workflow_42\<lparr>status := workflow_exception, status := workflow_finish\<rparr>)))
       = ''sit''"
    by (rule spec)
  from h t c show ?thesis by (intro conjI)
qed

text \<open>
  C7. The name is rewritten with \<open>replace(curr_mark, next_mark)\<close>: a leading tag of another
  environment than the current one stays, and so does the claim's invariant fail there.
  Promoted from dev to sit, \<open>[uat]Add index\<close> keeps its name.
\<close>

theorem foreign_leading_tag_is_kept:
  "promotion_step (Some relation_1) (workflow_42\<lparr>workflow_name := ''[uat]Add index''\<rparr>)
     = (''dev'', ''sit'', '','' @ ''sit'' @ str_env_pending,
        workflow_42\<lparr>status := workflow_review_pass, wf_instance := 2, db_name := ''D2'',
                     workflow_name := ''[uat]Add index''\<rparr>)"
  by (simp add: callback_defs scenario_defs)

text \<open>The two names of the claim are rewritten as it says.\<close>

lemma rewrite_name_examples:
  "rewrite_name ''dev'' ''sit'' ''[dev]Add index'' = ''[sit]Add index''"
  "rewrite_name ''dev'' ''sit'' ''Add index'' = ''[sit]Add index''"
  by (simp_all add: rewrite_name_def has_env_tag_def mark_def)

text \<open>Every occurrence of the current tag is replaced, not only the leading one.\<close>

lemma rewrite_name_inner_tag:
  "rewrite_name ''dev'' ''sit'' ''[dev]Drop [dev] copy'' = ''[sit]Drop [sit] copy''"
  by (simp add: rewrite_name_def has_env_tag_def mark_def)

section \<open>The steps after the result has been persisted\<close>

lemma finish_callback_returns:
  "fst (finish_callback C i workflow ce rst pr w) = Inr () \<longleftrightarrow>
     (\<exists>aid. detail_by_workflow_id C i = Inr aid)
     \<and> add_log_fault C = None
     \<and> (syntax_type workflow = 1 \<longrightarrow> redis_fault C = None)
     \<and> (\<exists>cfg. notify_phase_control C = Inr cfg \<and> (is_notified cfg \<longrightarrow> notify_fault C = None))"
  by (auto simp: finish_callback_def Let_def split: option.splits sum.splits)

lemma finish_callback_error_log:
  "error_log (snd (finish_callback C i workflow ce rst pr w)) = error_log w"
  by (auto simp: finish_callback_def Let_def split: option.splits sum.splits)

lemma finish_callback_notified:
  "notified (snd (finish_callback C i workflow ce rst pr w)) =
     (if (\<exists>aid. detail_by_workflow_id C i = Inr aid) \<and> add_log_fault C = None
          \<and> (syntax_type workflow = 1 \<longrightarrow> redis_fault C = None)
          \<and> (\<exists>cfg. notify_phase_control C = Inr cfg \<and> is_notified cfg)
      then notified w @ [workflow] else notified w)"
  by (auto simp: finish_callback_def Let_def split: option.splits sum.splits)

lemma promotion_step_syntax_type:
  "syntax_type (snd (snd (snd (promotion_step db_relate workflow)))) = syntax_type workflow"
  using promotion_step_status [of db_relate workflow]
  by (cases "promotion_step db_relate workflow") auto

text \<open>\<open>after_persist\<close> with its two database calls answering: what is left is
  \<open>finish_callback\<close> on the promoted workflow.\<close>

lemma after_persist_unfold:
  assumes "relation_query_fault C = None" and "final_save_fault C = None"
  shows "after_persist C t workflow w =
           finish_callback C (args0 t)
             (snd (snd (snd (promotion_step (find_relation w workflow) workflow))))
             (fst (promotion_step (find_relation w workflow) workflow))
             (get_status_display C (status workflow))
             (fst (snd (snd (promotion_step (find_relation w workflow) workflow))))
             ((case fst (resolve_env (find_relation w workflow) workflow) of
                 Some e \<Rightarrow> w\<lparr>error_log := error_log w @ [e]\<rparr>
               | None \<Rightarrow> w)
              \<lparr>sql_workflows :=
                 (sql_workflows w)(args0 t \<mapsto>
                    snd (snd (snd (promotion_step (find_relation w workflow) workflow))))\<rparr>)"
  using assms
  by (cases "promotion_step (find_relation w workflow) workflow")
     (auto simp: after_persist_def Let_def split: option.splits)

lemma after_persist_aborts:
  assumes "relation_query_fault C \<noteq> None \<or> final_save_fault C \<noteq> None"
  shows "\<exists>msg. fst (after_persist C t workflow w) = Inl (ExternalError msg)"
    and "notified (snd (after_persist C t workflow w)) = notified w"
  using assms
  by (cases "promotion_step (find_relation w workflow) workflow";
      auto simp: after_persist_def Let_def split: option.splits)+

lemma finish_callback_audit_logs:
  "audit_logs (snd (finish_callback C i workflow ce rst pr w)) =
     (if add_log_fault C = None
      then (case detail_by_workflow_id C i of
              Inr aid \<Rightarrow> audit_logs w @ [callback_log_entry aid ce rst pr]
            | Inl m \<Rightarrow> audit_logs w)
      else audit_logs w)"
  by (auto simp: finish_callback_def Let_def split: option.splits sum.splits)

lemma finish_callback_redis_keys:
  "redis_keys (snd (finish_callback C i workflow ce rst pr w)) =
     (if (\<exists>aid. detail_by_workflow_id C i = Inr aid) \<and> add_log_fault C = None
          \<and> syntax_type workflow = 1 \<and> redis_fault C = None
      then filter (\<lambda>k. \<not> contains k ''insRes'') (redis_keys w)
      else redis_keys w)"
  by (auto simp: finish_callback_def Let_def split: option.splits sum.splits)

lemma finish_callback_result:
  "fst (finish_callback C i workflow ce rst pr w) =
     (case detail_by_workflow_id C i of
        Inl m \<Rightarrow> Inl (ExternalError m)
      | Inr aid \<Rightarrow>
          (case add_log_fault C of
             Some m \<Rightarrow> Inl (ExternalError m)
           | None \<Rightarrow>
               (case (if syntax_type workflow = 1 then redis_fault C else None) of
                  Some m \<Rightarrow> Inl (ExternalError m)
                | None \<Rightarrow>
                    (case notify_phase_control C of
                       Inl m \<Rightarrow> Inl (ExternalError m)
                     | Inr cfg \<Rightarrow>
                         if is_notified cfg
                         then (case notify_fault C of
                                 Some m \<Rightarrow> Inl (ExternalError m)
                               | None \<Rightarrow> Inr ())
                         else Inr ()))))"
  by (auto simp: finish_callback_def Let_def split: option.splits sum.splits)

lemma after_persist_query_fails:
  "relation_query_fault C = Some m \<Longrightarrow>
     after_persist C t workflow w = (Inl (ExternalError m), w)"
  by (simp add: after_persist_def)

lemma after_persist_save_fails:
  assumes "relation_query_fault C = None" and "final_save_fault C = Some m"
  shows "fst (after_persist C t workflow w) = Inl (ExternalError m)"
    and "sql_workflows (snd (after_persist C t workflow w)) = sql_workflows w"
    and "audit_logs (snd (after_persist C t workflow w)) = audit_logs w"
    and "redis_keys (snd (after_persist C t workflow w)) = redis_keys w"
    and "notified (snd (after_persist C t workflow w)) = notified w"
  using assms
  by (cases "promotion_step (find_relation w workflow) workflow";
      auto simp: after_persist_def Let_def split: option.splits)+

text \<open>
  C8, as stated, fails: the audit log refuses the entry, the callback raises, and neither
  the cache invalidation of this DDL workflow nor the notification, enabled here, runs.
\<close>

theorem audit_failure_aborts_callback:
  "fst (execute_callback audit_down clean_task world_executing)
     = Inl (ExternalError ''audit store unreachable'')
   \<and> syntax_type workflow_42 = 1
   \<and> redis_keys (snd (execute_callback audit_down clean_task world_executing))
       = [''1_insRes_tables'', ''session'']
   \<and> notify_phase_control audit_down = Inr (Some ''Apply,Execute'')
   \<and> notified (snd (execute_callback audit_down clean_task world_executing)) = []"
  by (simp add: callback_defs scenario_defs audit_down_def)

text \<open>
  C8, amended. Of the steps after the result has been persisted only the resolution of
  the environment slot is best-effort: what it raises (no relation found, a null database
  in the next slot) is caught and logged, and the remaining steps run. Those steps return
  exactly when no collaborator fails: the relation query, the final save, the audit
  lookup and entry, the cache for a DDL workflow, the configuration, the notifier. A
  failure of any of these propagates to the caller: the call raises the error of the
  first collaborator that fails, the steps before it have taken effect and the steps after
  it have not (the workflow is saved only if the query and the save succeed, the audit
  entry is appended only if the audit log also answers, the cache is invalidated only if
  the cache also answers, the notifier is called only if the configuration is also read
  and enables the phase). A failure of the status guard propagates with nothing done.
\<close>

theorem after_persist_best_effort:
  "(fst (after_persist C t workflow w) = Inr () \<longleftrightarrow>
      relation_query_fault C = None
      \<and> final_save_fault C = None
      \<and> (\<exists>aid. detail_by_workflow_id C (args0 t) = Inr aid)
      \<and> add_log_fault C = None
      \<and> (syntax_type workflow = 1 \<longrightarrow> redis_fault C = None)
      \<and> (\<exists>cfg. notify_phase_control C = Inr cfg \<and> (is_notified cfg \<longrightarrow> notify_fault C = None)))
   \<and> (\<forall>e. fst (after_persist C t workflow w) = Inl e \<longrightarrow> (\<exists>msg. e = ExternalError msg))
   \<and> (\<forall>e. relation_query_fault C = None
          \<and> fst (resolve_env (find_relation w workflow) workflow) = Some e \<longrightarrow>
          e \<in> set (error_log (snd (after_persist C t workflow w))))
   \<and> (find_relation w workflow = None \<longrightarrow>
        fst (resolve_env (find_relation w workflow) workflow) = Some AttributeError)
   \<and> (\<forall>curr_env next_env prompt workflow'.
        promotion_step (find_relation w workflow) workflow
          = (curr_env, next_env, prompt, workflow') \<longrightarrow>
        fst (after_persist C t workflow w) =
          (case relation_query_fault C of
             Some m \<Rightarrow> Inl (ExternalError m)
           | None \<Rightarrow>
          (case final_save_fault C of
             Some m \<Rightarrow> Inl (ExternalError m)
           | None \<Rightarrow>
          (case detail_by_workflow_id C (args0 t) of
             Inl m \<Rightarrow> Inl (ExternalError m)
           | Inr aid \<Rightarrow>
          (case add_log_fault C of
             Some m \<Rightarrow> Inl (ExternalError m)
           | None \<Rightarrow>
          (case (if syntax_type workflow = 1 then redis_fault C else None) of
             Some m \<Rightarrow> Inl (ExternalError m)
           | None \<Rightarrow>
          (case notify_phase_control C of
             Inl m \<Rightarrow> Inl (ExternalError m)
           | Inr cfg \<Rightarrow>
               if is_notified cfg
               then (case notify_fault C of
                       Some m \<Rightarrow> Inl (ExternalError m)
                     | None \<Rightarrow> Inr ())
               else Inr ()))))))
        \<and> sql_workflows (snd (after_persist C t workflow w)) =
            (if relation_query_fault C = None \<and> final_save_fault C = None
             then (sql_workflows w)(args0 t \<mapsto> workflow')
             else sql_workflows w)
        \<and> audit_logs (snd (after_persist C t workflow w)) =
            (if relation_query_fault C = None \<and> final_save_fault C = None
                 \<and> add_log_fault C = None
             then (case detail_by_workflow_id C (args0 t) of
                     Inr aid \<Rightarrow>
                       audit_logs w
                         @ [callback_log_entry aid curr_env
                              (get_status_display C (status workflow)) prompt]
                   | Inl m \<Rightarrow> audit_logs w)
             else audit_logs w)
        \<and> redis_keys (snd (after_persist C t workflow w)) =
            (if relation_query_fault C = None \<and> final_save_fault C = None
                 \<and> (\<exists>aid. detail_by_workflow_id C (args0 t) = Inr aid)
                 \<and> add_log_fault C = None
                 \<and> syntax_type workflow = 1 \<and> redis_fault C = None
             then filter (\<lambda>k. \<not> contains k ''insRes'') (redis_keys w)
             else redis_keys w)
        \<and> notified (snd (after_persist C t workflow w)) =
            (if relation_query_fault C = None \<and> final_save_fault C = None
                 \<and> (\<exists>aid. detail_by_workflow_id C (args0 t) = Inr aid)
                 \<and> add_log_fault C = None
                 \<and> (syntax_type workflow = 1 \<longrightarrow> redis_fault C = None)
                 \<and> (\<exists>cfg. notify_phase_control C = Inr cfg \<and> is_notified cfg)
             then notified w @ [workflow']
             else notified w))
   \<and> (\<forall>e. load_guard t w = Inl e \<longrightarrow> execute_callback C t w = (Inl e, w))"
proof -
  let ?R = "after_persist C t workflow w"
  have ret: "fst ?R = Inr () \<longleftrightarrow>
      relation_query_fault C = None
      \<and> final_save_fault C = None
      \<and> (\<exists>aid. detail_by_workflow_id C (args0 t) = Inr aid)
      \<and> add_log_fault C = None
      \<and> (syntax_type workflow = 1 \<longrightarrow> redis_fault C = None)
      \<and> (\<exists>cfg. notify_phase_control C = Inr cfg \<and> (is_notified cfg \<longrightarrow> notify_fault C = None))"
  proof (cases "relation_query_fault C = None \<and> final_save_fault C = None")
    case True
    then show ?thesis
      by (simp add: after_persist_unfold finish_callback_returns promotion_step_syntax_type)
  next
    case False
    then have "relation_query_fault C \<noteq> None \<or> final_save_fault C \<noteq> None" by auto
    from after_persist_aborts(1) [OF this, of t workflow w] False show ?thesis by auto
  qed
  have err: "\<exists>msg. e = ExternalError msg" if "fst ?R = Inl e" for e
  proof -
    from that obtain w' where "after_persist C t workflow w = (Inl e, w')"
      by (cases "after_persist C t workflow w") simp
    then show ?thesis by (rule after_persist_error)
  qed
  have logged: "e \<in> set (error_log (snd ?R))"
    if q: "relation_query_fault C = None"
    and e: "fst (resolve_env (find_relation w workflow) workflow) = Some e" for e
  proof (cases "final_save_fault C")
    case None
    with q e show ?thesis
      by (simp add: after_persist_unfold finish_callback_error_log)
  next
    case (Some msg)
    with q e show ?thesis
      by (cases "promotion_step (find_relation w workflow) workflow")
         (auto simp: after_persist_def Let_def)
  qed
  have none: "fst (resolve_env (find_relation w workflow) workflow) = Some AttributeError"
    if "find_relation w workflow = None"
    using that by (simp add: resolve_env_def)
  have steps: "fst ?R =
          (case relation_query_fault C of
             Some m \<Rightarrow> Inl (ExternalError m)
           | None \<Rightarrow>
          (case final_save_fault C of
             Some m \<Rightarrow> Inl (ExternalError m)
           | None \<Rightarrow>
          (case detail_by_workflow_id C (args0 t) of
             Inl m \<Rightarrow> Inl (ExternalError m)
           | Inr aid \<Rightarrow>
          (case add_log_fault C of
             Some m \<Rightarrow> Inl (ExternalError m)
           | None \<Rightarrow>
          (case (if syntax_type workflow = 1 then redis_fault C else None) of
             Some m \<Rightarrow> Inl (ExternalError m)
           | None \<Rightarrow>
          (case notify_phase_control C of
             Inl m \<Rightarrow> Inl (ExternalError m)
           | Inr cfg \<Rightarrow>
               if is_notified cfg
               then (case notify_fault C of
                       Some m \<Rightarrow> Inl (ExternalError m)
                     | None \<Rightarrow> Inr ())
               else Inr ()))))))
        \<and> sql_workflows (snd ?R) =
            (if relation_query_fault C = None \<and> final_save_fault C = None
             then (sql_workflows w)(args0 t \<mapsto> workflow')
             else sql_workflows w)
        \<and> audit_logs (snd ?R) =
            (if relation_query_fault C = None \<and> final_save_fault C = None
                 \<and> add_log_fault C = None
             then (case detail_by_workflow_id C (args0 t) of
                     Inr aid \<Rightarrow>
                       audit_logs w
                         @ [callback_log_entry aid curr_env
                              (get_status_display C (status workflow)) prompt]
                   | Inl m \<Rightarrow> audit_logs w)
             else audit_logs w)
        \<and> redis_keys (snd ?R) =
            (if relation_query_fault C = None \<and> final_save_fault C = None
                 \<and> (\<exists>aid. detail_by_workflow_id C (args0 t) = Inr aid)
                 \<and> add_log_fault C = None
                 \<and> syntax_type workflow = 1 \<and> redis_fault C = None
             then filter (\<lambda>k. \<not> contains k ''insRes'') (redis_keys w)
             else redis_keys w)
        \<and> notified (snd ?R) =
            (if relation_query_fault C = None \<and> final_save_fault C = None
                 \<and> (\<exists>aid. detail_by_workflow_id C (args0 t) = Inr aid)
                 \<and> add_log_fault C = None
                 \<and> (syntax_type workflow = 1 \<longrightarrow> redis_fault C = None)
                 \<and> (\<exists>cfg. notify_phase_control C = Inr cfg \<and> is_notified cfg)
             then notified w @ [workflow']
             else notified w)"
    if ps: "promotion_step (find_relation w workflow) workflow
              = (curr_env, next_env, prompt, workflow')"
    for curr_env next_env prompt workflow'
  proof (cases "relation_query_fault C")
    case (Some m)
    then show ?thesis by (simp add: after_persist_query_fails)
  next
    case q: None
    show ?thesis
    proof (cases "final_save_fault C")
      case (Some m)
      with q after_persist_save_fails [OF q Some, of t workflow w] show ?thesis by simp
    next
      case s: None
      from promotion_step_status [OF ps]
      have sy: "syntax_type workflow' = syntax_type workflow" by simp
      let ?w1 = "(case fst (resolve_env (find_relation w workflow) workflow) of
                    Some e \<Rightarrow> w\<lparr>error_log := error_log w @ [e]\<rparr>
                  | None \<Rightarrow> w)"
      let ?w2 = "?w1\<lparr>sql_workflows := (sql_workflows w)(args0 t \<mapsto> workflow')\<rparr>"
      have u: "?R = finish_callback C (args0 t) workflow' curr_env
                      (get_status_display C (status workflow)) prompt ?w2"
        using after_persist_unfold [OF q s, of t workflow w] ps by simp
      have f1: "audit_logs ?w2 = audit_logs w" by (simp split: option.splits)
      have f2: "redis_keys ?w2 = redis_keys w" by (simp split: option.splits)
      have f3: "notified ?w2 = notified w" by (simp split: option.splits)
      have f4: "sql_workflows ?w2 = (sql_workflows w)(args0 t \<mapsto> workflow')" by simp
      have a: "fst ?R =
          (case detail_by_workflow_id C (args0 t) of
             Inl m \<Rightarrow> Inl (ExternalError m)
           | Inr aid \<Rightarrow>
          (case add_log_fault C of
             Some m \<Rightarrow> Inl (ExternalError m)
           | None \<Rightarrow>
          (case (if syntax_type workflow = 1 then redis_fault C else None) of
             Some m \<Rightarrow> Inl (ExternalError m)
           | None \<Rightarrow>
          (case notify_phase_control C of
             Inl m \<Rightarrow> Inl (ExternalError m)
           | Inr cfg \<Rightarrow>
               if is_notified cfg
               then (case notify_fault C of
                       Some m \<Rightarrow> Inl (ExternalError m)
                     | None \<Rightarrow> Inr ())
               else Inr ()))))"
        by (simp only: u finish_callback_result sy)
      have b: "sql_workflows (snd ?R) = (sql_workflows w)(args0 t \<mapsto> workflow')"
        by (simp only: u finish_callback_table f4)
      have c: "audit_logs (snd ?R) =
            (if add_log_fault C = None
             then (case detail_by_workflow_id C (args0 t) of
                     Inr aid \<Rightarrow>
                       audit_logs w
                         @ [callback_log_entry aid curr_env
                              (get_status_display C (status workflow)) prompt]
                   | Inl m \<Rightarrow> audit_logs w)
             else audit_logs w)"
        by (simp only: u finish_callback_audit_logs f1)
      have d: "redis_keys (snd ?R) =
            (if (\<exists>aid. detail_by_workflow_id C (args0 t) = Inr aid)
                 \<and> add_log_fault C = None
                 \<and> syntax_type workflow = 1 \<and> redis_fault C = None
             then filter (\<lambda>k. \<not> contains k ''insRes'') (redis_keys w)
             else redis_keys w)"
        by (simp only: u finish_callback_redis_keys f2 sy)
      have e: "notified (snd ?R) =
            (if (\<exists>aid. detail_by_workflow_id C (args0 t) = Inr aid)
                 \<and> add_log_fault C = None
                 \<and> (syntax_type workflow = 1 \<longrightarrow> redis_fault C = None)
                 \<and> (\<exists>cfg. notify_phase_control C = Inr cfg \<and> is_notified cfg)
             then notified w @ [workflow']
             else notified w)"
        by (simp only: u finish_callback_notified f3 sy)
      from q s a b c d e show ?thesis by simp
    qed
  qed
  have guard: "execute_callback C t w = (Inl e, w)" if "load_guard t w = Inl e" for e
    using that by (simp add: execute_callback_def)
  from ret err logged none steps guard show ?thesis by blast
qed

theorem after_persist_best_effort_witness:
  "find_relation (world_executing\<lparr>db_env_relations := []\<rparr>)
      (workflow_42\<lparr>status := workflow_finish\<rparr>) = None
   \<and> fst (after_persist healthy clean_task (workflow_42\<lparr>status := workflow_finish\<rparr>)
            (world_executing\<lparr>db_env_relations := []\<rparr>)) = Inr ()
   \<and> AttributeError \<in> set (error_log (snd
        (after_persist healthy clean_task (workflow_42\<lparr>status := workflow_finish\<rparr>)
            (world_executing\<lparr>db_env_relations := []\<rparr>))))
   \<and> promotion_step (find_relation world_executing (workflow_42\<lparr>status := workflow_finish\<rparr>))
        (workflow_42\<lparr>status := workflow_finish\<rparr>)
       = (''dev'', ''sit'', '','' @ ''sit'' @ str_env_pending,
          workflow_42\<lparr>status := workflow_review_pass, wf_instance := 2, db_name := ''D2'',
                       workflow_name := ''[sit]Add index''\<rparr>)
   \<and> fst (after_persist cache_down clean_task (workflow_42\<lparr>status := workflow_finish\<rparr>)
            world_executing) = Inl (ExternalError ''redis timeout'')
   \<and> length (audit_logs (snd (after_persist cache_down clean_task
                 (workflow_42\<lparr>status := workflow_finish\<rparr>) world_executing))) = 1
   \<and> redis_keys (snd (after_persist cache_down clean_task
                 (workflow_42\<lparr>status := workflow_finish\<rparr>) world_executing))
       = [''1_insRes_tables'', ''session'']
   \<and> notified (snd (after_persist cache_down clean_task
                 (workflow_42\<lparr>status := workflow_finish\<rparr>) world_executing)) = []"
proof -
  let ?w = "world_executing\<lparr>db_env_relations := []\<rparr>"
  let ?wfl = "workflow_42\<lparr>status := workflow_finish\<rparr>"
  let ?wfl' = "workflow_42\<lparr>status := workflow_review_pass, wf_instance := 2, db_name := ''D2'',
                       workflow_name := ''[sit]Add index''\<rparr>"
  let ?R = "after_persist cache_down clean_task ?wfl world_executing"
  note inst = after_persist_best_effort [of healthy clean_task ?wfl ?w]
  have n: "find_relation ?w ?wfl = None"
    by (simp add: find_relation_def)
  have q: "relation_query_fault healthy = None"
    by (simp add: healthy_def)
  from inst n have a: "fst (resolve_env (find_relation ?w ?wfl) ?wfl) = Some AttributeError"
    by blast
  from inst q a have l: "AttributeError \<in> set (error_log (snd (after_persist healthy clean_task ?wfl ?w)))"
    by blast
  have r: "fst (after_persist healthy clean_task ?wfl ?w) = Inr ()"
    by (simp add: callback_defs scenario_defs)
  have ps: "promotion_step (find_relation world_executing ?wfl) ?wfl
       = (''dev'', ''sit'', '','' @ ''sit'' @ str_env_pending, ?wfl')"
    by (simp add: callback_defs scenario_defs)
  note down = after_persist_best_effort [of cache_down clean_task ?wfl world_executing]
  from down ps have nt: "notified (snd ?R) =
            (if relation_query_fault cache_down = None \<and> final_save_fault cache_down = None
                 \<and> (\<exists>aid. detail_by_workflow_id cache_down (args0 clean_task) = Inr aid)
                 \<and> add_log_fault cache_down = None
                 \<and> (syntax_type ?wfl = 1 \<longrightarrow> redis_fault cache_down = None)
                 \<and> (\<exists>cfg. notify_phase_control cache_down = Inr cfg \<and> is_notified cfg)
             then notified world_executing @ [?wfl']
             else notified world_executing)"
    by blast
  have cond: "\<not> (syntax_type ?wfl = 1 \<longrightarrow> redis_fault cache_down = None)"
    by (simp add: cache_down_def scenario_defs)
  have w0: "notified world_executing = []"
    by (simp add: scenario_defs)
  from nt cond have "notified (snd ?R) = notified world_executing"
    by simp
  with w0 have nf: "notified (snd ?R) = []"
    by simp
  have e: "fst ?R = Inl (ExternalError ''redis timeout'')"
    by (simp add: callback_defs scenario_defs cache_down_def)
  have al: "length (audit_logs (snd ?R)) = 1"
    by (simp add: callback_defs scenario_defs cache_down_def)
  have rk: "redis_keys (snd ?R) = [''1_insRes_tables'', ''session'']"
    by (simp add: callback_defs scenario_defs cache_down_def)
  from n r l ps e al rk nf show ?thesis by (intro conjI)
qed

section \<open>Notification\<close>








section \<open>The fallback of the persistence step\<close>

lemma primary_save_fails:
  assumes "primary_save C i workflow res w = (Inl e, w1)"
  shows "sql_workflows w1 = sql_workflows w"
    and "sql_workflow_contents w1 i = None \<longleftrightarrow> sql_workflow_contents w i = None"
  using assms
  by (auto simp: primary_save_def load_content_def Let_def split: option.splits sum.splits)

lemma fallback_save_unfold:
  assumes "forced_update_fault C = None"
  shows "fallback_save C t e w1 =
     (case sql_workflow_contents w1 (args0 t) of
        None \<Rightarrow>
          (Inl RelatedObjectDoesNotExist,
           w1\<lparr>error_log := error_log w1 @ [e],
               sql_workflows := forced_update (sql_workflows w1) (args0 t) (stopped t)\<rparr>)
      | Some c \<Rightarrow>
          (case fallback_content_save_fault C of
             Some msg \<Rightarrow>
               (Inl (ExternalError msg),
                w1\<lparr>error_log := error_log w1 @ [e],
                    sql_workflows := forced_update (sql_workflows w1) (args0 t) (stopped t)\<rparr>)
           | None \<Rightarrow>
               (Inr (),
                w1\<lparr>error_log := error_log w1 @ [e],
                    sql_workflows := forced_update (sql_workflows w1) (args0 t) (stopped t),
                    sql_workflow_contents := (sql_workflow_contents w1)
                      (args0 t \<mapsto> c\<lparr>execute_result := StoredErrorSet (error_text e)\<rparr>)\<rparr>)))"
  using assms
  by (simp add: fallback_save_def load_content_def Let_def split: option.splits)

lemma finish_callback_contents:
  "sql_workflow_contents (snd (finish_callback C i workflow ce rst pr w))
     = sql_workflow_contents w"
  by (auto simp: finish_callback_def Let_def split: option.splits sum.splits)

lemma after_persist_contents:
  "sql_workflow_contents (snd (after_persist C t workflow w)) = sql_workflow_contents w"
  by (cases "promotion_step (find_relation w workflow) workflow")
     (auto simp: after_persist_def Let_def finish_callback_contents split: option.splits)

lemma after_persist_saves_object:
  assumes "fst (after_persist C t workflow w) = Inr ()"
  shows "\<exists>row'. sql_workflows (snd (after_persist C t workflow w)) (args0 t) = Some row'
           \<and> (status row' = status workflow \<or> status row' = workflow_review_pass)"
proof -
  have f: "relation_query_fault C = None \<and> final_save_fault C = None"
  proof (rule ccontr)
    assume "\<not> ?thesis"
    then have "relation_query_fault C \<noteq> None \<or> final_save_fault C \<noteq> None" by auto
    from after_persist_aborts(1) [OF this, of t workflow w] assms show False by auto
  qed
  obtain ce ne pr w1 where p:
    "promotion_step (find_relation w workflow) workflow = (ce, ne, pr, w1)"
    by (cases "promotion_step (find_relation w workflow) workflow") auto
  from f p have "sql_workflows (snd (after_persist C t workflow w)) (args0 t) = Some w1"
    by (simp add: after_persist_unfold finish_callback_table)
  with promotion_step_status [OF p] show ?thesis by auto
qed

text \<open>The callback when the \<open>try\<close> block has raised.\<close>

lemma execute_callback_fallback:
  assumes "load_guard t w = Inr row"
      and "classify_task t w = Inr (st, res)"
      and "primary_save C (args0 t) (row\<lparr>finish_time := Some (stopped t), status := st\<rparr>) res w
             = (Inl e, w1)"
  shows "persist_result C t (row\<lparr>finish_time := Some (stopped t), status := st\<rparr>) res w
           = fallback_save C t e w1"
    and "execute_callback C t w =
           (case fallback_save C t e w1 of
              (Inl e', w2) \<Rightarrow> (Inl e', w2)
            | (Inr u, w2) \<Rightarrow>
                after_persist C t (row\<lparr>finish_time := Some (stopped t), status := st\<rparr>) w2)"
  using assms by (simp_all add: execute_callback_def persist_result_def)

lemma fallback_outcome:
  assumes g: "load_guard t w = Inr row"
      and cl: "classify_task t w = Inr (st, res)"
      and p: "primary_save C (args0 t) (row\<lparr>finish_time := Some (stopped t), status := st\<rparr>) res w
             = (Inl e, w1)"
      and fu: "forced_update_fault C = None"
      and row: "sql_workflows w (args0 t) = Some row"
  shows "sql_workflows
           (snd (persist_result C t (row\<lparr>finish_time := Some (stopped t), status := st\<rparr>) res w))
           (args0 t)
         = Some (row\<lparr>finish_time := Some (stopped t), status := workflow_exception\<rparr>)"
    and "sql_workflow_contents w (args0 t) = None \<Longrightarrow>
           fst (execute_callback C t w) = Inl RelatedObjectDoesNotExist
           \<and> sql_workflow_contents (snd (execute_callback C t w)) (args0 t) = None
           \<and> sql_workflows (snd (execute_callback C t w)) (args0 t)
               = Some (row\<lparr>finish_time := Some (stopped t), status := workflow_exception\<rparr>)"
    and "sql_workflow_contents w (args0 t) \<noteq> None \<Longrightarrow>
         fallback_content_save_fault C = Some msg \<Longrightarrow>
           fst (execute_callback C t w) = Inl (ExternalError msg)
           \<and> sql_workflow_contents (snd (execute_callback C t w)) = sql_workflow_contents w1
           \<and> sql_workflows (snd (execute_callback C t w)) (args0 t)
               = Some (row\<lparr>finish_time := Some (stopped t), status := workflow_exception\<rparr>)"
    and "sql_workflow_contents w (args0 t) \<noteq> None \<Longrightarrow>
         fallback_content_save_fault C = None \<Longrightarrow>
           map_option execute_result
             (sql_workflow_contents (snd (execute_callback C t w)) (args0 t))
           = Some (StoredErrorSet (error_text e))"
proof -
  note pf = primary_save_fails [OF p]
  from pf(1) row have r1: "sql_workflows w1 (args0 t) = Some row" by simp
  then have fr: "forced_update (sql_workflows w1) (args0 t) (stopped t) (args0 t)
      = Some (row\<lparr>finish_time := Some (stopped t), status := workflow_exception\<rparr>)"
    by (simp add: forced_update_def)
  note ec = execute_callback_fallback [OF g cl p]
  show "sql_workflows
           (snd (persist_result C t (row\<lparr>finish_time := Some (stopped t), status := st\<rparr>) res w))
           (args0 t)
         = Some (row\<lparr>finish_time := Some (stopped t), status := workflow_exception\<rparr>)"
    using fr by (simp add: ec(1) fallback_save_unfold [OF fu] split: option.splits)
  show "fst (execute_callback C t w) = Inl RelatedObjectDoesNotExist
           \<and> sql_workflow_contents (snd (execute_callback C t w)) (args0 t) = None
           \<and> sql_workflows (snd (execute_callback C t w)) (args0 t)
               = Some (row\<lparr>finish_time := Some (stopped t), status := workflow_exception\<rparr>)"
    if "sql_workflow_contents w (args0 t) = None"
  proof -
    from that pf(2) have "sql_workflow_contents w1 (args0 t) = None" by simp
    with fr show ?thesis by (simp add: ec(2) fallback_save_unfold [OF fu])
  qed
  show "fst (execute_callback C t w) = Inl (ExternalError msg)
           \<and> sql_workflow_contents (snd (execute_callback C t w)) = sql_workflow_contents w1
           \<and> sql_workflows (snd (execute_callback C t w)) (args0 t)
               = Some (row\<lparr>finish_time := Some (stopped t), status := workflow_exception\<rparr>)"
    if "sql_workflow_contents w (args0 t) \<noteq> None" and "fallback_content_save_fault C = Some msg"
  proof -
    from that(1) pf(2) obtain c where "sql_workflow_contents w1 (args0 t) = Some c" by auto
    with fr that(2) show ?thesis by (simp add: ec(2) fallback_save_unfold [OF fu])
  qed
  show "map_option execute_result
             (sql_workflow_contents (snd (execute_callback C t w)) (args0 t))
           = Some (StoredErrorSet (error_text e))"
    if "sql_workflow_contents w (args0 t) \<noteq> None" and "fallback_content_save_fault C = None"
  proof -
    from that(1) pf(2) obtain c where "sql_workflow_contents w1 (args0 t) = Some c" by auto
    with that(2) show ?thesis
      by (simp add: ec(2) fallback_save_unfold [OF fu] after_persist_contents)
  qed
qed

text \<open>
  C4, as stated, fails: when the database refuses both the primary save and the forced
  update, the callback ends with the stored status still \<open>workflow_executing\<close>, and a
  second callback passes the guard.
\<close>

theorem stuck_executing_when_forced_update_fails:
  "fst (execute_callback database_down clean_task world_executing)
     = Inl (ExternalError ''server has gone away'')
   \<and> map_option status
        (sql_workflows (snd (execute_callback database_down clean_task world_executing)) 42)
       = Some workflow_executing
   \<and> fst (execute_callback healthy clean_task
            (snd (execute_callback database_down clean_task world_executing)))
       = Inr ()"
  by (simp add: callback_defs scenario_defs database_down_def)

text \<open>The same holds when the classification raises: nothing has been written by then.\<close>

lemma stuck_executing_when_classification_raises:
  "execute_callback healthy (clean_task\<lparr>result := PNone\<rparr>) world_executing
     = (Inl AttributeError, world_executing)"
  by (simp add: callback_defs scenario_defs)

text \<open>
  C4, amended. When the guard passes, the classification does not raise and the forced
  update, if it is reached, does not itself fail, the stored status after the call is
  \<open>workflow_finish\<close>, \<open>workflow_exception\<close> or \<open>workflow_review_pass\<close>, whether the call
  returned or raised; any later callback for the same workflow then raises the
  duplicate-callback error and changes nothing. A call that returns has stored the
  status of the workflow object: the classified status or \<open>workflow_review_pass\<close>.
  When the primary save fails, the persistence step leaves the row forced to
  \<open>workflow_exception\<close> with the finish time. The error text is then stored as the result
  exactly when the content row exists and its save succeeds; with no content row, or with
  that save failing, the call raises there, the row stays \<open>workflow_exception\<close> and no
  error text is stored.
\<close>

theorem execute_callback_leaves_executing:
  assumes row: "sql_workflows w (args0 t) = Some row"
      and ex: "status row = workflow_executing"
      and cl: "classify_task t w = Inr (st, res)"
      and fu: "forced_update_fault C = None"
  shows "(\<exists>row'. sql_workflows (snd (execute_callback C t w)) (args0 t) = Some row'
           \<and> status row' \<in> {workflow_finish, workflow_exception, workflow_review_pass}
           \<and> (fst (execute_callback C t w) = Inr () \<longrightarrow>
                 status row' = st \<or> status row' = workflow_review_pass)
           \<and> (\<forall>C' t'. args0 t' = args0 t \<longrightarrow>
                 execute_callback C' t' (snd (execute_callback C t w))
                   = (Inl (DuplicateCallbackError (wf_id row')), snd (execute_callback C t w))))
       \<and> (\<forall>e w1.
             primary_save C (args0 t) (row\<lparr>finish_time := Some (stopped t), status := st\<rparr>) res w
               = (Inl e, w1) \<longrightarrow>
             sql_workflows
               (snd (persist_result C t
                      (row\<lparr>finish_time := Some (stopped t), status := st\<rparr>) res w))
               (args0 t)
               = Some (row\<lparr>finish_time := Some (stopped t), status := workflow_exception\<rparr>)
             \<and> (sql_workflow_contents w (args0 t) = None \<longrightarrow>
                   fst (execute_callback C t w) = Inl RelatedObjectDoesNotExist
                   \<and> sql_workflow_contents (snd (execute_callback C t w)) (args0 t) = None
                   \<and> sql_workflows (snd (execute_callback C t w)) (args0 t)
                       = Some (row\<lparr>finish_time := Some (stopped t),
                                    status := workflow_exception\<rparr>))
             \<and> (\<forall>msg. sql_workflow_contents w (args0 t) \<noteq> None
                    \<and> fallback_content_save_fault C = Some msg \<longrightarrow>
                   fst (execute_callback C t w) = Inl (ExternalError msg)
                   \<and> sql_workflow_contents (snd (execute_callback C t w))
                       = sql_workflow_contents w1
                   \<and> sql_workflows (snd (execute_callback C t w)) (args0 t)
                       = Some (row\<lparr>finish_time := Some (stopped t),
                                    status := workflow_exception\<rparr>))
             \<and> (sql_workflow_contents w (args0 t) \<noteq> None
                    \<and> fallback_content_save_fault C = None \<longrightarrow>
                   map_option execute_result
                     (sql_workflow_contents (snd (execute_callback C t w)) (args0 t))
                   = Some (StoredErrorSet (error_text e))))"
proof -
  from cl classify_task_status
  have st: "st = workflow_exception \<or> st = workflow_finish" by blast
  from row ex have g: "load_guard t w = Inr row" by (simp add: load_guard_def)
  let ?wfl = "row\<lparr>finish_time := Some (stopped t), status := st\<rparr>"
  obtain r1 w1 where p: "persist_result C t ?wfl res w = (r1, w1)"
    by (cases "persist_result C t ?wfl res w")
  from persist_result_status [OF fu row p]
  obtain row1 where r1: "sql_workflows w1 (args0 t) = Some row1"
    and s1: "status row1 = st \<or> status row1 = workflow_exception" by auto
  have "\<exists>row'. sql_workflows (snd (execute_callback C t w)) (args0 t) = Some row'
           \<and> status row' \<in> {workflow_finish, workflow_exception, workflow_review_pass}
           \<and> (fst (execute_callback C t w) = Inr () \<longrightarrow>
                 status row' = st \<or> status row' = workflow_review_pass)"
  proof (cases r1)
    case (Inl e)
    with g cl p have "execute_callback C t w = (Inl e, w1)" by (simp add: execute_callback_def)
    with r1 s1 st show ?thesis by auto
  next
    case (Inr u)
    obtain r2 w2 where a: "after_persist C t ?wfl w1 = (r2, w2)"
      by (cases "after_persist C t ?wfl w1")
    with Inr g cl p have x: "execute_callback C t w = (r2, w2)"
      by (simp add: execute_callback_def)
    from after_persist_status [OF r1 a] obtain row' where
      r': "sql_workflows w2 (args0 t) = Some row'"
      and s': "status row' = status row1 \<or> status row' = status ?wfl
                 \<or> status row' = workflow_review_pass" by blast
    have "status row' = st \<or> status row' = workflow_review_pass" if "r2 = Inr ()"
    proof -
      from that a have "fst (after_persist C t ?wfl w1) = Inr ()" by simp
      from after_persist_saves_object [OF this] a r' show ?thesis by simp
    qed
    with x r' s' s1 st show ?thesis by auto
  qed
  then obtain row' where
    r': "sql_workflows (snd (execute_callback C t w)) (args0 t) = Some row'"
    and s': "status row' \<in> {workflow_finish, workflow_exception, workflow_review_pass}"
    and c': "fst (execute_callback C t w) = Inr () \<longrightarrow>
                 status row' = st \<or> status row' = workflow_review_pass"
    by blast
  from s' have ne: "status row' \<noteq> workflow_executing" by auto
  have "execute_callback C' t' (snd (execute_callback C t w))
          = (Inl (DuplicateCallbackError (wf_id row')), snd (execute_callback C t w))"
    if "args0 t' = args0 t" for C' t'
    using that r' ne by (simp add: execute_callback_def load_guard_def)
  with r' s' c' have first: "\<exists>row'. sql_workflows (snd (execute_callback C t w)) (args0 t) = Some row'
           \<and> status row' \<in> {workflow_finish, workflow_exception, workflow_review_pass}
           \<and> (fst (execute_callback C t w) = Inr () \<longrightarrow>
                 status row' = st \<or> status row' = workflow_review_pass)
           \<and> (\<forall>C' t'. args0 t' = args0 t \<longrightarrow>
                 execute_callback C' t' (snd (execute_callback C t w))
                   = (Inl (DuplicateCallbackError (wf_id row')), snd (execute_callback C t w)))"
    by blast
  note fo = fallback_outcome [OF g cl _ fu row]
  from first fo show ?thesis by blast
qed

theorem execute_callback_leaves_executing_witness:
  "sql_workflows world_executing (args0 clean_task) = Some (workflow_42\<lparr>status := workflow_executing\<rparr>)
   \<and> status (workflow_42\<lparr>status := workflow_executing\<rparr>) = workflow_executing
   \<and> classify_task clean_task world_executing
       = Inr (workflow_finish, ReviewSet ''create index i on t (c)'' False False [])
   \<and> forced_update_fault content_store_down = None
   \<and> primary_save content_store_down (args0 clean_task)
        (workflow_42\<lparr>status := workflow_executing, finish_time := Some (stopped clean_task),
                      status := workflow_finish\<rparr>)
        (ReviewSet ''create index i on t (c)'' False False []) world_executing
       = (Inl (ExternalError ''disk full''), world_executing)
   \<and> fallback_content_save_fault content_store_down = None
   \<and> map_option status
        (sql_workflows (snd (execute_callback content_store_down clean_task world_executing)) 42)
       = Some workflow_review_pass
   \<and> execute_callback healthy clean_task
        (snd (execute_callback content_store_down clean_task world_executing))
       = (Inl (DuplicateCallbackError 42),
          snd (execute_callback content_store_down clean_task world_executing))
   \<and> map_option execute_result
        (sql_workflow_contents
           (snd (execute_callback content_store_down clean_task world_executing))
           (args0 clean_task))
       = Some (StoredErrorSet (error_text (ExternalError ''disk full'')))
   \<and> fallback_content_save_fault content_store_lost = Some ''disk still full''
   \<and> fst (execute_callback content_store_lost clean_task world_executing)
       = Inl (ExternalError ''disk still full'')
   \<and> map_option status
        (sql_workflows (snd (execute_callback content_store_lost clean_task world_executing)) 42)
       = Some workflow_exception
   \<and> map_option execute_result
        (sql_workflow_contents
           (snd (execute_callback content_store_lost clean_task world_executing)) 42)
       = Some (StoredText [])"
proof -
  let ?row = "workflow_42\<lparr>status := workflow_executing\<rparr>"
  let ?res = "ReviewSet ''create index i on t (c)'' False False []"
  have h1: "sql_workflows world_executing (args0 clean_task) = Some ?row"
    by (simp add: scenario_defs)
  have h2: "status ?row = workflow_executing"
    by simp
  have h3: "classify_task clean_task world_executing = Inr (workflow_finish, ?res)"
    by (simp add: classify_task_def classify_def scenario_defs)
  have h4: "forced_update_fault content_store_down = None"
    by (simp add: content_store_down_def healthy_def)
  have h5: "primary_save content_store_down (args0 clean_task)
        (?row\<lparr>finish_time := Some (stopped clean_task), status := workflow_finish\<rparr>)
        ?res world_executing
       = (Inl (ExternalError ''disk full''), world_executing)"
    by (simp add: primary_save_def load_content_def scenario_defs content_store_down_def)
  have h6: "fallback_content_save_fault content_store_down = None"
    by (simp add: content_store_down_def healthy_def)
  have h7: "sql_workflow_contents world_executing (args0 clean_task) \<noteq> None"
    by (simp add: scenario_defs)
  note inst = execute_callback_leaves_executing [OF h1 h2 h3 h4]
  from inst h5 h6 h7 have e: "map_option execute_result
        (sql_workflow_contents
           (snd (execute_callback content_store_down clean_task world_executing))
           (args0 clean_task))
       = Some (StoredErrorSet (error_text (ExternalError ''disk full'')))"
    by blast
  have s: "map_option status
        (sql_workflows (snd (execute_callback content_store_down clean_task world_executing)) 42)
       = Some workflow_review_pass"
    by (simp add: callback_defs scenario_defs content_store_down_def)
  from inst obtain row' where
    "sql_workflows (snd (execute_callback content_store_down clean_task world_executing))
       (args0 clean_task) = Some row'"
    and d: "\<forall>C' t'. args0 t' = args0 clean_task \<longrightarrow>
              execute_callback C' t'
                (snd (execute_callback content_store_down clean_task world_executing))
              = (Inl (DuplicateCallbackError (wf_id row')),
                 snd (execute_callback content_store_down clean_task world_executing))"
    by blast
  moreover have "the (sql_workflows
       (snd (execute_callback content_store_down clean_task world_executing))
       (args0 clean_task)) = workflow_42\<lparr>status := workflow_review_pass, wf_instance := 2,
           db_name := ''D2'', workflow_name := ''[sit]Add index'', finish_time := Some 1000\<rparr>"
    by (simp add: callback_defs scenario_defs content_store_down_def)
  ultimately have "wf_id row' = 42" by (simp add: workflow_42_def)
  with d have dup: "execute_callback healthy clean_task
        (snd (execute_callback content_store_down clean_task world_executing))
       = (Inl (DuplicateCallbackError 42),
          snd (execute_callback content_store_down clean_task world_executing))"
    by simp
  have l1: "fallback_content_save_fault content_store_lost = Some ''disk still full''"
    by (simp add: content_store_lost_def healthy_def)
  have l2: "fst (execute_callback content_store_lost clean_task world_executing)
       = Inl (ExternalError ''disk still full'')"
    by (simp add: callback_defs scenario_defs content_store_lost_def)
  have l3: "map_option status
        (sql_workflows (snd (execute_callback content_store_lost clean_task world_executing)) 42)
       = Some workflow_exception"
    by (simp add: callback_defs scenario_defs content_store_lost_def)
  have l4: "map_option execute_result
        (sql_workflow_contents
           (snd (execute_callback content_store_lost clean_task world_executing)) 42)
       = Some (StoredText [])"
    by (simp add: callback_defs scenario_defs content_store_lost_def)
  from h1 h2 h3 h4 h5 h6 s dup e l1 l2 l3 l4 show ?thesis by (intro conjI)
qed

end
